theory Spec2Isabelle
  imports
    Complex_Main
    "HOL-Library.Multiset"
    "HOL-Library.Sublist"
    "HOL-Library.List_Lexorder"
    "HOL-Library.Product_Lexorder"
begin

section \<open>Data model of \<open>avistamientos.py\<close>\<close>

text \<open>
  A Python \<open>str\<close> is a sequence of Unicode code points: \<open>len\<close> counts code points and
  \<open><\<close> compares them lexicographically. It is modelled as a list of code points, with
  the lexicographic order on lists. Python tuples compare lexicographically, as pairs do
  here. A Python \<open>float\<close> is modelled by the real number it denotes (no NaN, no infinity,
  no rounding); Python's unbounded \<open>int\<close> is \<open>int\<close>.
\<close>

type_synonym pystr = "nat list"

text \<open>
  Modelled from the spec: the type \<open>Coordenadas\<close> of the module \<open>coordenadas\<close>, a
  latitude/longitude pair of floats, immutable, with equality by value.
\<close>

record Coordenadas =
  latitud :: real
  longitud :: real

text \<open>\<open>datetime.date\<close> and \<open>datetime.datetime\<close> (naive) of the standard library.\<close>

record date =
  year :: int
  month :: int
  day :: int

record datetime = date +
  hour :: int
  minute :: int
  second :: int
  microsecond :: int

definition date_of :: "datetime \<Rightarrow> date" where
  \<comment> \<open>\<open>dt.date()\<close>\<close>
  "date_of t = \<lparr>year = year t, month = month t, day = day t\<rparr>"

definition date_key :: "date \<Rightarrow> int \<times> int \<times> int" where
  \<comment> \<open>dates compare as \<open>(year, month, day)\<close>\<close>
  "date_key d = (year d, month d, day d)"

definition dt_key :: "datetime \<Rightarrow> int \<times> int \<times> int \<times> int \<times> int \<times> int \<times> int" where
  \<comment> \<open>naive datetimes compare as \<open>(year, month, day, hour, minute, second, microsecond)\<close>\<close>
  "dt_key t = (year t, month t, day t, hour t, minute t, second t, microsecond t)"

text \<open>
  \<open>(d2 - d1).days\<close> is the difference of the proleptic Gregorian ordinals, computed as
  in the standard library (\<open>_days_before_year\<close>, \<open>_is_leap\<close>, \<open>_days_before_month\<close>,
  \<open>_ymd2ord\<close>).
\<close>

definition is_leap :: "int \<Rightarrow> bool" where
  "is_leap y = (y mod 4 = 0 \<and> (y mod 100 \<noteq> 0 \<or> y mod 400 = 0))"

definition days_before_year :: "int \<Rightarrow> int" where
  "days_before_year y = (y - 1) * 365 + (y - 1) div 4 - (y - 1) div 100 + (y - 1) div 400"

definition days_in_month_table :: "int list" where
  "days_in_month_table = [31, 28, 31, 30, 31, 30, 31, 31, 30, 31, 30, 31]"

definition days_before_month :: "int \<Rightarrow> int \<Rightarrow> int" where
  "days_before_month y m =
     sum_list (take (nat (m - 1)) days_in_month_table) + (if m > 2 \<and> is_leap y then 1 else 0)"

definition toordinal :: "date \<Rightarrow> int" where
  "toordinal d = days_before_year (year d) + days_before_month (year d) (month d) + day d"

definition days_between :: "date \<Rightarrow> date \<Rightarrow> int" where
  \<comment> \<open>\<open>(d2 - d1).days\<close>\<close>
  "days_between d1 d2 = toordinal d2 - toordinal d1"

record Avistamiento =
  fechahora :: datetime
  ciudad :: pystr
  estado :: pystr
  forma :: pystr
  duracion :: int
  comentarios :: pystr
  ubicacion :: Coordenadas

text \<open>The exceptions the operations can raise.\<close>

datatype py_error = ValueError | ZeroDivisionError | IndexError

section \<open>Proximity\<close>

text \<open>
  \<open>avistamientos_cercanos_ubicacion\<close>: the loop adds to the set \<open>res\<close> every record whose
  distance to \<open>ubicacion\<close> is below \<open>radio\<close>. The function \<open>distancia\<close> of the module
  \<open>coordenadas\<close> is a parameter.
\<close>

fun cercanos_loop ::
  "(Coordenadas \<Rightarrow> Coordenadas \<Rightarrow> real) \<Rightarrow> Coordenadas \<Rightarrow> real \<Rightarrow>
   Avistamiento list \<Rightarrow> Avistamiento set \<Rightarrow> Avistamiento set" where
  "cercanos_loop distancia u radio [] res = res"
| "cercanos_loop distancia u radio (a # as) res =
     cercanos_loop distancia u radio as
       (if distancia (ubicacion a) u < radio then insert a res else res)"

definition avistamientos_cercanos_ubicacion ::
  "(Coordenadas \<Rightarrow> Coordenadas \<Rightarrow> real) \<Rightarrow> Avistamiento list \<Rightarrow> Coordenadas \<Rightarrow> real \<Rightarrow>
   Avistamiento set" where
  "avistamientos_cercanos_ubicacion distancia avistamientos u radio =
     cercanos_loop distancia u radio avistamientos {}"

definition avistamientos_cercanos_ubicacion2 ::
  "(Coordenadas \<Rightarrow> Coordenadas \<Rightarrow> real) \<Rightarrow> Avistamiento list \<Rightarrow> Coordenadas \<Rightarrow> real \<Rightarrow>
   Avistamiento set" where
  "avistamientos_cercanos_ubicacion2 distancia avistamientos u radio =
     set (filter (\<lambda>a. distancia (ubicacion a) u < radio) avistamientos)"

section \<open>Built-ins used by the operations\<close>

text \<open>
  \<open>list.sort(key=..., reverse=...)\<close> and \<open>sorted\<close> are stable. With \<open>reverse=True\<close>
  CPython reverses the list, sorts it in ascending order and reverses the result, which
  keeps the elements of equal key in their original order.
\<close>

definition py_sort_key :: "('a \<Rightarrow> 'k::linorder) \<Rightarrow> bool \<Rightarrow> 'a list \<Rightarrow> 'a list" where
  "py_sort_key key reverse xs =
     (if reverse then rev (sort_key key (rev xs)) else sort_key key xs)"

text \<open>
  \<open>max(xs, key=...)\<close>: the first element whose key is maximal (a later element replaces
  the current one only when its key is strictly greater); \<open>ValueError\<close> on an empty
  argument.
\<close>

fun max_key_loop :: "('a \<Rightarrow> 'k::linorder) \<Rightarrow> 'a \<Rightarrow> 'a list \<Rightarrow> 'a" where
  "max_key_loop key best [] = best"
| "max_key_loop key best (x # xs) =
     max_key_loop key (if key x > key best then x else best) xs"

definition py_max_key :: "('a \<Rightarrow> 'k::linorder) \<Rightarrow> 'a list \<Rightarrow> py_error + 'a" where
  "py_max_key key xs =
     (case xs of [] \<Rightarrow> Inl ValueError | x # rest \<Rightarrow> Inr (max_key_loop key x rest))"

text \<open>\<open>xs[:n]\<close>: a negative \<open>n\<close> counts from the end.\<close>

definition py_slice_to :: "int \<Rightarrow> 'a list \<Rightarrow> 'a list" where
  "py_slice_to n xs =
     (if n \<ge> 0 then take (nat n) xs else take (length xs - nat (- n)) xs)"

text \<open>\<open>a / b\<close> on integers: true division, \<open>ZeroDivisionError\<close> when \<open>b\<close> is zero.\<close>

definition py_truediv :: "int \<Rightarrow> int \<Rightarrow> py_error + real" where
  "py_truediv a b = (if b = 0 then Inl ZeroDivisionError else Inr (real_of_int a / real_of_int b))"

text \<open>\<open>p in s\<close> on strings: \<open>p\<close> occurs in \<open>s\<close> as a contiguous substring.\<close>

fun py_in :: "pystr \<Rightarrow> pystr \<Rightarrow> bool" where
  "py_in p [] = (p = [])"
| "py_in p (c # cs) = (take (length p) (c # cs) = p \<or> py_in p cs)"

text \<open>
  A \<open>dict\<close> keeps its keys in insertion order: it is an association list with distinct
  keys. \<open>dict_set\<close> is \<open>d[k] = v\<close>; \<open>dict_modify k f\<close> is an update of the value stored
  under a key that is present (\<open>d[k] += 1\<close>, \<open>d[k].add(a)\<close>); \<open>defaultdict_modify\<close> is
  the same update on a \<open>defaultdict\<close>, which first stores the default under a missing key.
  \<open>Counter(xs)\<close> counts the elements of \<open>xs\<close> one by one.
\<close>

fun dict_set :: "'k \<Rightarrow> 'v \<Rightarrow> ('k \<times> 'v) list \<Rightarrow> ('k \<times> 'v) list" where
  "dict_set k v [] = [(k, v)]"
| "dict_set k v ((k', v') # d) =
     (if k' = k then (k', v) # d else (k', v') # dict_set k v d)"

fun dict_modify :: "'k \<Rightarrow> ('v \<Rightarrow> 'v) \<Rightarrow> ('k \<times> 'v) list \<Rightarrow> ('k \<times> 'v) list" where
  "dict_modify k f [] = []"
| "dict_modify k f ((k', v) # d) =
     (if k' = k then (k', f v) # d else (k', v) # dict_modify k f d)"

fun defaultdict_modify :: "'v \<Rightarrow> 'k \<Rightarrow> ('v \<Rightarrow> 'v) \<Rightarrow> ('k \<times> 'v) list \<Rightarrow> ('k \<times> 'v) list" where
  "defaultdict_modify dflt k f [] = [(k, f dflt)]"
| "defaultdict_modify dflt k f ((k', v) # d) =
     (if k' = k then (k', f v) # d else (k', v) # defaultdict_modify dflt k f d)"

definition Counter :: "'k list \<Rightarrow> ('k \<times> int) list" where
  "Counter xs = fold (\<lambda>x c. defaultdict_modify 0 x (\<lambda>n. n + 1) c) xs []"

section \<open>Extremal queries\<close>

text \<open>
  \<open>avistamiento_mayor_duracion\<close>: the loop appends the records of the given shape to a
  new list, and \<open>max\<close> picks the one of greatest duration.
\<close>

definition avistamiento_mayor_duracion :: "Avistamiento list \<Rightarrow> pystr \<Rightarrow> py_error + Avistamiento" where
  "avistamiento_mayor_duracion avistamientos f =
     (let avistamientos_forma =
            fold (\<lambda>a acc. if forma a = f then acc @ [a] else acc) avistamientos []
      in py_max_key duracion avistamientos_forma)"

definition avistamiento_mayor_duracion2 :: "Avistamiento list \<Rightarrow> pystr \<Rightarrow> py_error + Avistamiento" where
  "avistamiento_mayor_duracion2 avistamientos f =
     py_max_key duracion (filter (\<lambda>a. forma a = f) avistamientos)"

text \<open>
  \<open>avistamiento_cercano_mayor_duracion\<close>: \<open>None\<close> when no record is near, otherwise the
  greatest pair \<open>(duracion, comentarios)\<close> of the near records. The default of \<open>radio\<close>
  is \<open>0.5\<close>.
\<close>

definition avistamiento_cercano_mayor_duracion ::
  "(Coordenadas \<Rightarrow> Coordenadas \<Rightarrow> real) \<Rightarrow> Avistamiento list \<Rightarrow> Coordenadas \<Rightarrow> real \<Rightarrow>
   (int \<times> pystr) option" where
  "avistamiento_cercano_mayor_duracion distancia avistamientos coordenadas radio =
     (let cercanos = avistamientos_cercanos_ubicacion distancia avistamientos coordenadas radio
      in if card cercanos > 0
         then Some (Max ((\<lambda>a. (duracion a, comentarios a)) ` cercanos))
         else None)"

definition radio_por_defecto :: real where
  "radio_por_defecto = 1 / 2"

text \<open>
  \<open>comentario_mas_largo\<close>: \<open>str.lower\<close> is a parameter (\<open>lower\<close>).
\<close>

definition comentario_mas_largo ::
  "(pystr \<Rightarrow> pystr) \<Rightarrow> Avistamiento list \<Rightarrow> int \<Rightarrow> pystr \<Rightarrow> py_error + Avistamiento" where
  "comentario_mas_largo lower avistamientos anyo palabra =
     (let avistamientos_filtrado =
            fold (\<lambda>a acc. if year (fechahora a) = anyo \<and> py_in (lower palabra) (lower (comentarios a))
                           then acc @ [a] else acc) avistamientos []
      in py_max_key (\<lambda>a. length (comentarios a)) avistamientos_filtrado)"

section \<open>Range and ordered queries\<close>

definition en_rango :: "date option \<Rightarrow> date option \<Rightarrow> Avistamiento \<Rightarrow> bool" where
  \<comment> \<open>the condition of the loop of \<open>avistamientos_fechas\<close>\<close>
  "en_rango fecha_inicial fecha_final a =
     ((fecha_inicial = None \<or> date_key (the fecha_inicial) \<le> date_key (date_of (fechahora a))) \<and>
      (fecha_final = None \<or> date_key (the fecha_final) \<ge> date_key (date_of (fechahora a))))"

definition avistamientos_fechas ::
  "Avistamiento list \<Rightarrow> date option \<Rightarrow> date option \<Rightarrow> Avistamiento list" where
  "avistamientos_fechas avistamientos fecha_inicial fecha_final =
     (let seleccion =
            fold (\<lambda>a acc. if en_rango fecha_inicial fecha_final a then acc @ [a] else acc)
              avistamientos []
      in py_sort_key (\<lambda>a. dt_key (fechahora a)) True seleccion)"

text \<open>
  \<open>media_dias_entre_avistamientos\<close>: \<open>sorted\<close> compares whole records, that is the tuples
  of their fields, the timestamp first.
\<close>

definition av_key ::
  "Avistamiento \<Rightarrow>
   (int \<times> int \<times> int \<times> int \<times> int \<times> int \<times> int) \<times> pystr \<times> pystr \<times> pystr \<times> int \<times> pystr \<times> real \<times> real" where
  "av_key a =
     (dt_key (fechahora a), ciudad a, estado a, forma a, duracion a, comentarios a,
      latitud (ubicacion a), longitud (ubicacion a))"

definition media_dias_entre_avistamientos :: "Avistamiento list \<Rightarrow> int option \<Rightarrow> real option" where
  "media_dias_entre_avistamientos avistamientos anyo =
     (let avistamientos_anyo =
            (case anyo of None \<Rightarrow> avistamientos
             | Some y \<Rightarrow> filter (\<lambda>a. year (fechahora a) = y) avistamientos);
          ordenados = py_sort_key av_key False avistamientos_anyo;
          dias = map (\<lambda>(a1, a2). days_between (date_of (fechahora a1)) (date_of (fechahora a2)))
                   (zip ordenados (drop 1 ordenados))
      in if length dias > 0
         then Some (real_of_int (sum_list dias) / real (length dias))
         else None)"

section \<open>Grouping\<close>

definition avistamientos_por_fecha :: "Avistamiento list \<Rightarrow> (date \<times> Avistamiento set) list" where
  "avistamientos_por_fecha avistamientos =
     fold (\<lambda>a res.
            let k = date_of (fechahora a);
                res1 = (if k \<notin> fst ` set res then dict_set k {} res else res)
            in dict_modify k (insert a) res1)
       avistamientos []"

definition avistamientos_por_fecha2 :: "Avistamiento list \<Rightarrow> (date \<times> Avistamiento set) list" where
  "avistamientos_por_fecha2 avistamientos =
     fold (\<lambda>a res. defaultdict_modify {} (date_of (fechahora a)) (insert a) res) avistamientos []"

definition numero_avistamientos_por_anyo :: "Avistamiento list \<Rightarrow> (int \<times> int) list" where
  \<comment> \<open>\<open>numero_avistamientos_por_a\<ntilde>o\<close>\<close>
  "numero_avistamientos_por_anyo avistamientos =
     fold (\<lambda>a res.
            let k = year (fechahora a);
                res1 = (if k \<notin> fst ` set res then dict_set k 0 res else res)
            in dict_modify k (\<lambda>n. n + 1) res1)
       avistamientos []"

definition numero_avistamientos_por_anyo2 :: "Avistamiento list \<Rightarrow> (int \<times> int) list" where
  "numero_avistamientos_por_anyo2 avistamientos = Counter (map (\<lambda>a. year (fechahora a)) avistamientos)"

definition numero_avistamientos_por_anyo3 :: "Avistamiento list \<Rightarrow> (int \<times> int) list" where
  "numero_avistamientos_por_anyo3 avistamientos =
     fold (\<lambda>a res. defaultdict_modify 0 (year (fechahora a)) (\<lambda>n. n + 1) res) avistamientos []"

text \<open>
  \<open>longitud_media_comentarios_por_estado\<close>: the first loop collects the comment lengths
  of each state, the second divides their sum by their number.
\<close>

fun medias_loop ::
  "(pystr \<times> int list) list \<Rightarrow> (pystr \<times> real) list \<Rightarrow> py_error + (pystr \<times> real) list" where
  "medias_loop [] res = Inr res"
| "medias_loop ((e, longitudes) # items) res =
     (case py_truediv (sum_list longitudes) (int (length longitudes)) of
        Inl err \<Rightarrow> Inl err
      | Inr m \<Rightarrow> medias_loop items (dict_set e m res))"

definition longitudes_comentarios_por_estado :: "Avistamiento list \<Rightarrow> (pystr \<times> int list) list" where
  "longitudes_comentarios_por_estado avistamientos =
     fold (\<lambda>a d. defaultdict_modify [] (estado a) (\<lambda>l. l @ [int (length (comentarios a))]) d)
       avistamientos []"

definition longitud_media_comentarios_por_estado ::
  "Avistamiento list \<Rightarrow> py_error + (pystr \<times> real) list" where
  "longitud_media_comentarios_por_estado avistamientos =
     medias_loop (longitudes_comentarios_por_estado avistamientos) []"

text \<open>
  \<open>porc_avistamientos_por_forma\<close> is defined twice in the module, the second time with
  a year (section 4.8 BIS of the source); the second definition is named
  \<open>porc_avistamientos_por_forma_bis\<close> here.
\<close>

fun porc_loop ::
  "int \<Rightarrow> (pystr \<times> int) list \<Rightarrow> (pystr \<times> real) list \<Rightarrow> py_error + (pystr \<times> real) list" where
  "porc_loop total_avistamientos [] res = Inr res"
| "porc_loop total_avistamientos ((f, conteo) # items) res =
     (case py_truediv (100 * conteo) total_avistamientos of
        Inl err \<Rightarrow> Inl err
      | Inr p \<Rightarrow> porc_loop total_avistamientos items (dict_set f p res))"

definition porc_avistamientos_por_forma :: "Avistamiento list \<Rightarrow> py_error + (pystr \<times> real) list" where
  "porc_avistamientos_por_forma avistamientos =
     (let conteo_por_formas = Counter (map forma avistamientos);
          total_avistamientos = int (length avistamientos)
      in porc_loop total_avistamientos conteo_por_formas [])"

definition porc_avistamientos_por_forma_bis ::
  "Avistamiento list \<Rightarrow> int \<Rightarrow> py_error + (pystr \<times> real) list" where
  "porc_avistamientos_por_forma_bis avistamientos anyo =
     (let conteo_por_formas =
            Counter (map forma (filter (\<lambda>a. year (fechahora a) = anyo) avistamientos));
          total_avistamientos = sum_list (map snd conteo_por_formas)
      in porc_loop total_avistamientos conteo_por_formas [])"

text \<open>
  \<open>avistamientos_mayor_duracion_por_estado\<close>: group by state, then sort each group by
  duration, greatest first, and keep \<open>[:n]\<close>. The default of \<open>n\<close> is 3.
\<close>

definition agrupa_por_estado :: "Avistamiento list \<Rightarrow> (pystr \<times> Avistamiento list) list" where
  "agrupa_por_estado avistamientos =
     fold (\<lambda>av d. defaultdict_modify [] (estado av) (\<lambda>l. l @ [av]) d) avistamientos []"

definition avistamientos_mayor_duracion_por_estado ::
  "Avistamiento list \<Rightarrow> int \<Rightarrow> (pystr \<times> Avistamiento list) list" where
  "avistamientos_mayor_duracion_por_estado avistamientos n =
     (let avistamientos_por_estados = agrupa_por_estado avistamientos
      in fold (\<lambda>(e, avistamientos_estado) d.
                 dict_set e (py_slice_to n (py_sort_key duracion True avistamientos_estado)) d)
           avistamientos_por_estados avistamientos_por_estados)"

definition n_por_defecto :: int where
  "n_por_defecto = 3"

text \<open>
  \<open>avistamiento_mas_reciente_por_estado\<close>: the second loop replaces, in the same
  dictionary, the group of each state by the greatest timestamp of the group.
\<close>

datatype grupo_o_fecha = Grupo "Avistamiento list" | Fecha datetime

fun reciente_loop ::
  "(pystr \<times> Avistamiento list) list \<Rightarrow> (pystr \<times> grupo_o_fecha) list \<Rightarrow>
   py_error + (pystr \<times> grupo_o_fecha) list" where
  "reciente_loop [] d = Inr d"
| "reciente_loop ((e, avistamientos_estado) # items) d =
     (case py_max_key (\<lambda>a. dt_key (fechahora a)) avistamientos_estado of
        Inl err \<Rightarrow> Inl err
      | Inr a \<Rightarrow> reciente_loop items (dict_set e (Fecha (fechahora a)) d))"

definition avistamiento_mas_reciente_por_estado ::
  "Avistamiento list \<Rightarrow> py_error + (pystr \<times> grupo_o_fecha) list" where
  "avistamiento_mas_reciente_por_estado avistamientos =
     (let avistamientos_por_estados = agrupa_por_estado avistamientos
      in reciente_loop avistamientos_por_estados
           (map (\<lambda>(e, l). (e, Grupo l)) avistamientos_por_estados))"

section \<open>The operations on a store of list objects\<close>

text \<open>
  To follow which list object each statement writes, the operations are modelled a
  second time on a store: the list objects of records, by address. The argument
  \<open>avistamientos\<close> is the address of the input list. \<open>[]\<close> and \<open>sorted\<close> and a slice
  allocate a new object; \<open>append\<close> and \<open>sort\<close> write the object they are called on. Sets,
  dictionaries, counters, numbers and lists of numbers are values local to the call.
\<close>

type_synonym ref = nat
type_synonym store = "Avistamiento list list"

definition new_list :: "Avistamiento list \<Rightarrow> store \<Rightarrow> store \<times> ref" where
  "new_list xs s = (s @ [xs], length s)"

definition list_append :: "ref \<Rightarrow> Avistamiento \<Rightarrow> store \<Rightarrow> store" where
  "list_append r a s = s[r := s ! r @ [a]]"

definition list_sort :: "ref \<Rightarrow> (Avistamiento \<Rightarrow> 'k::linorder) \<Rightarrow> bool \<Rightarrow> store \<Rightarrow> store" where
  "list_sort r key reverse s = s[r := py_sort_key key reverse (s ! r)]"

text \<open>
  \<open>for a in avistamientos\<close>: the iterator of a list reads the element at its index from
  the list object as it is at that moment, and stops when the index reaches the current
  length. A body that appended to the list it iterates would never stop: the loop is a
  partial function, \<open>None\<close> when it does not return. The state of a loop is the store
  and the local values.
\<close>

partial_function (option) for_in ::
  "ref \<Rightarrow> (Avistamiento \<Rightarrow> store \<times> 'l \<Rightarrow> store \<times> 'l) \<Rightarrow> nat \<Rightarrow> store \<times> 'l \<Rightarrow> (store \<times> 'l) option" where
  "for_in r body i st =
     (if i < length (fst st ! r) then for_in r body (Suc i) (body (fst st ! r ! i) st)
      else Some st)"

definition solo_local :: "(Avistamiento \<Rightarrow> 'l \<Rightarrow> 'l) \<Rightarrow> Avistamiento \<Rightarrow> store \<times> 'l \<Rightarrow> store \<times> 'l" where
  \<comment> \<open>a body that writes local values only\<close>
  "solo_local f a st = (fst st, f a (snd st))"

definition solo_store :: "(Avistamiento \<Rightarrow> store \<Rightarrow> store) \<Rightarrow> Avistamiento \<Rightarrow> store \<times> 'l \<Rightarrow> store \<times> 'l" where
  \<comment> \<open>a body that writes list objects only\<close>
  "solo_store g a st = (g a (fst st), snd st)"

text \<open>\<open>xs[i]\<close>: a negative index counts from the end, \<open>IndexError\<close> out of range.\<close>

definition py_getitem :: "'a list \<Rightarrow> int \<Rightarrow> py_error + 'a" where
  "py_getitem xs i =
     (if 0 \<le> i \<and> i < int (length xs) then Inr (xs ! nat i)
      else if i < 0 \<and> - int (length xs) \<le> i then Inr (xs ! nat (int (length xs) + i))
      else Inl IndexError)"

definition meses :: "pystr list" where
  "meses = map (map of_char)
     [''Enero'', ''Febrero'', ''Marzo'', ''Abril'', ''Mayo'', ''Junio'', ''Julio'', ''Agosto'',
      ''Septiembre'', ''Octubre'', ''Noviembre'', ''Diciembre'']"

subsection \<open>Counting and filtering\<close>

definition numero_avistamientos_fecha :: "store \<Rightarrow> ref \<Rightarrow> date \<Rightarrow> (store \<times> int) option" where
  "numero_avistamientos_fecha s avistamientos fecha =
     for_in avistamientos
       (solo_local (\<lambda>a contador. if date_of (fechahora a) = fecha then contador + 1 else contador))
       0 (s, 0)"

definition numero_avistamientos_fecha2 :: "store \<Rightarrow> ref \<Rightarrow> date \<Rightarrow> (store \<times> int) option" where
  "numero_avistamientos_fecha2 s avistamientos fecha =
     map_option (apsnd (\<lambda>l. int (length l)))
       (for_in avistamientos
          (solo_local (\<lambda>a l. if date_of (fechahora a) = fecha then l @ [()] else l)) 0 (s, []))"

definition formas_estados :: "store \<Rightarrow> ref \<Rightarrow> pystr set \<Rightarrow> (store \<times> int) option" where
  "formas_estados s avistamientos estados =
     map_option (apsnd (\<lambda>conjunto_formas. int (card conjunto_formas)))
       (for_in avistamientos
          (solo_local (\<lambda>a conjunto_formas.
             if estado a \<in> estados then insert (forma a) conjunto_formas else conjunto_formas))
          0 (s, {}))"

definition formas_estados2 :: "store \<Rightarrow> ref \<Rightarrow> pystr set \<Rightarrow> (store \<times> int) option" where
  "formas_estados2 s avistamientos estados =
     map_option (apsnd (\<lambda>c. int (card c)))
       (for_in avistamientos
          (solo_local (\<lambda>a c. if estado a \<in> estados then insert (forma a) c else c)) 0 (s, {}))"

definition duracion_total :: "store \<Rightarrow> ref \<Rightarrow> pystr \<Rightarrow> (store \<times> int) option" where
  "duracion_total s avistamientos e =
     for_in avistamientos
       (solo_local (\<lambda>a d. if estado a = e then d + duracion a else d)) 0 (s, 0)"

definition duracion_total2 :: "store \<Rightarrow> ref \<Rightarrow> pystr \<Rightarrow> (store \<times> int) option" where
  "duracion_total2 s avistamientos e =
     for_in avistamientos
       (solo_local (\<lambda>a suma. if estado a = e then suma + duracion a else suma)) 0 (s, 0)"

definition avistamientos_cercanos_ubicacion_st ::
  "(Coordenadas \<Rightarrow> Coordenadas \<Rightarrow> real) \<Rightarrow> store \<Rightarrow> ref \<Rightarrow> Coordenadas \<Rightarrow> real \<Rightarrow>
   (store \<times> Avistamiento set) option" where
  "avistamientos_cercanos_ubicacion_st distancia s avistamientos u radio =
     for_in avistamientos
       (solo_local (\<lambda>a res. if distancia (ubicacion a) u < radio then insert a res else res))
       0 (s, {})"

definition avistamientos_cercanos_ubicacion2_st ::
  "(Coordenadas \<Rightarrow> Coordenadas \<Rightarrow> real) \<Rightarrow> store \<Rightarrow> ref \<Rightarrow> Coordenadas \<Rightarrow> real \<Rightarrow>
   (store \<times> Avistamiento set) option" where
  "avistamientos_cercanos_ubicacion2_st distancia s avistamientos u radio =
     for_in avistamientos
       (solo_local (\<lambda>a c. if distancia (ubicacion a) u < radio then insert a c else c)) 0 (s, {})"

subsection \<open>Extremal, range and ordered queries\<close>

definition avistamiento_mayor_duracion_st ::
  "store \<Rightarrow> ref \<Rightarrow> pystr \<Rightarrow> (store \<times> (py_error + Avistamiento)) option" where
  "avistamiento_mayor_duracion_st s avistamientos f =
     (let (s1, avistamientos_forma) = new_list [] s
      in map_option (\<lambda>(s2, u). (s2, py_max_key duracion (s2 ! avistamientos_forma)))
           (for_in avistamientos
              (solo_store (\<lambda>a s. if forma a = f then list_append avistamientos_forma a s else s))
              0 (s1, ())))"

definition avistamiento_mayor_duracion2_st ::
  "store \<Rightarrow> ref \<Rightarrow> pystr \<Rightarrow> (store \<times> (py_error + Avistamiento)) option" where
  "avistamiento_mayor_duracion2_st s avistamientos f =
     map_option (apsnd (py_max_key duracion))
       (for_in avistamientos (solo_local (\<lambda>a gen. if forma a = f then gen @ [a] else gen)) 0 (s, []))"

definition avistamiento_cercano_mayor_duracion_st ::
  "(Coordenadas \<Rightarrow> Coordenadas \<Rightarrow> real) \<Rightarrow> store \<Rightarrow> ref \<Rightarrow> Coordenadas \<Rightarrow> real \<Rightarrow>
   (store \<times> (int \<times> pystr) option) option" where
  "avistamiento_cercano_mayor_duracion_st distancia s avistamientos coordenadas radio =
     map_option
       (apsnd (\<lambda>cercanos.
          if card cercanos > 0 then Some (Max ((\<lambda>a. (duracion a, comentarios a)) ` cercanos))
          else None))
       (avistamientos_cercanos_ubicacion_st distancia s avistamientos coordenadas radio)"

definition avistamientos_fechas_st ::
  "store \<Rightarrow> ref \<Rightarrow> date option \<Rightarrow> date option \<Rightarrow> (store \<times> ref) option" where
  "avistamientos_fechas_st s avistamientos fecha_inicial fecha_final =
     (let (s1, seleccion) = new_list [] s
      in map_option
           (\<lambda>(s2, u). (list_sort seleccion (\<lambda>a. dt_key (fechahora a)) True s2, seleccion))
           (for_in avistamientos
              (solo_store (\<lambda>a s. if en_rango fecha_inicial fecha_final a
                                 then list_append seleccion a s else s))
              0 (s1, ())))"

definition comentario_mas_largo_st ::
  "(pystr \<Rightarrow> pystr) \<Rightarrow> store \<Rightarrow> ref \<Rightarrow> int \<Rightarrow> pystr \<Rightarrow>
   (store \<times> (py_error + Avistamiento)) option" where
  "comentario_mas_largo_st lower s avistamientos anyo palabra =
     (let (s1, avistamientos_filtrado) = new_list [] s
      in map_option
           (\<lambda>(s2, u). (s2, py_max_key (\<lambda>a. length (comentarios a)) (s2 ! avistamientos_filtrado)))
           (for_in avistamientos
              (solo_store (\<lambda>a s.
                 if year (fechahora a) = anyo \<and> py_in (lower palabra) (lower (comentarios a))
                 then list_append avistamientos_filtrado a s else s))
              0 (s1, ())))"

text \<open>
  \<open>media_dias_entre_avistamientos\<close>: without a year, \<open>avistamientos_anyo\<close> is the input
  list itself, not a copy; \<open>sorted\<close> then builds a new list from it.
\<close>

definition media_dias_entre_avistamientos_st ::
  "store \<Rightarrow> ref \<Rightarrow> int option \<Rightarrow> (store \<times> real option) option" where
  "media_dias_entre_avistamientos_st s avistamientos anyo =
     (case (case anyo of
              None \<Rightarrow> Some (s, avistamientos)
            | Some y \<Rightarrow>
                (let (s1, l) = new_list [] s
                 in map_option (\<lambda>(s2, u). (s2, l))
                      (for_in avistamientos
                         (solo_store (\<lambda>a s. if year (fechahora a) = y then list_append l a s else s))
                         0 (s1, ())))) of
        None \<Rightarrow> None
      | Some (s2, avistamientos_anyo) \<Rightarrow>
          (let (s3, ordenados) = new_list (py_sort_key av_key False (s2 ! avistamientos_anyo)) s2;
               (s4, resto) = new_list (drop 1 (s3 ! ordenados)) s3;
               dias = map (\<lambda>(a1, a2). days_between (date_of (fechahora a1)) (date_of (fechahora a2)))
                        (zip (s4 ! ordenados) (s4 ! resto))
           in Some (s4, if length dias > 0
                        then Some (real_of_int (sum_list dias) / real (length dias))
                        else None)))"

subsection \<open>Dictionaries\<close>

definition avistamientos_por_fecha_st ::
  "store \<Rightarrow> ref \<Rightarrow> (store \<times> (date \<times> Avistamiento set) list) option" where
  "avistamientos_por_fecha_st s avistamientos =
     for_in avistamientos
       (solo_local (\<lambda>a res.
          let k = date_of (fechahora a);
              res1 = (if k \<notin> fst ` set res then dict_set k {} res else res)
          in dict_modify k (insert a) res1))
       0 (s, [])"

definition avistamientos_por_fecha2_st ::
  "store \<Rightarrow> ref \<Rightarrow> (store \<times> (date \<times> Avistamiento set) list) option" where
  "avistamientos_por_fecha2_st s avistamientos =
     for_in avistamientos
       (solo_local (\<lambda>a res. defaultdict_modify {} (date_of (fechahora a)) (insert a) res)) 0 (s, [])"

text \<open>
  \<open>formas_por_mes\<close> and \<open>num_avistamientos_por_mes\<close>: an exception in the body ends the
  loop; the local value is then the exception, which the remaining steps keep.
\<close>

definition formas_por_mes ::
  "store \<Rightarrow> ref \<Rightarrow> (store \<times> (py_error + (pystr \<times> pystr set) list)) option" where
  "formas_por_mes s avistamientos =
     for_in avistamientos
       (solo_local (\<lambda>a res.
          case res of Inl err \<Rightarrow> Inl err
          | Inr d \<Rightarrow>
              (case py_getitem meses (month (fechahora a) - 1) of
                 Inl err \<Rightarrow> Inl err
               | Inr mes \<Rightarrow> Inr (defaultdict_modify {} mes (insert (forma a)) d))))
       0 (s, Inr [])"

definition formas_por_mes2 :: "store \<Rightarrow> ref \<Rightarrow> (store \<times> unit) option" where
  \<comment> \<open>sets the locale of the process and returns \<open>None\<close>\<close>
  "formas_por_mes2 s avistamientos = Some (s, ())"

definition numero_avistamientos_por_anyo_st :: "store \<Rightarrow> ref \<Rightarrow> (store \<times> (int \<times> int) list) option" where
  "numero_avistamientos_por_anyo_st s avistamientos =
     for_in avistamientos
       (solo_local (\<lambda>a res.
          let k = year (fechahora a);
              res1 = (if k \<notin> fst ` set res then dict_set k 0 res else res)
          in dict_modify k (\<lambda>n. n + 1) res1))
       0 (s, [])"

definition numero_avistamientos_por_anyo2_st :: "store \<Rightarrow> ref \<Rightarrow> (store \<times> (int \<times> int) list) option" where
  "numero_avistamientos_por_anyo2_st s avistamientos =
     for_in avistamientos
       (solo_local (\<lambda>a c. defaultdict_modify 0 (year (fechahora a)) (\<lambda>n. n + 1) c)) 0 (s, [])"

definition numero_avistamientos_por_anyo3_st :: "store \<Rightarrow> ref \<Rightarrow> (store \<times> (int \<times> int) list) option" where
  "numero_avistamientos_por_anyo3_st s avistamientos =
     for_in avistamientos
       (solo_local (\<lambda>a res. defaultdict_modify 0 (year (fechahora a)) (\<lambda>n. n + 1) res)) 0 (s, [])"

definition num_avistamientos_por_mes ::
  "store \<Rightarrow> ref \<Rightarrow> (store \<times> (py_error + (pystr \<times> int) list)) option" where
  "num_avistamientos_por_mes s avistamientos =
     for_in avistamientos
       (solo_local (\<lambda>av res.
          case res of Inl err \<Rightarrow> Inl err
          | Inr d \<Rightarrow>
              (case py_getitem meses (month (fechahora av) - 1) of
                 Inl err \<Rightarrow> Inl err
               | Inr clave \<Rightarrow> Inr (defaultdict_modify 0 clave (\<lambda>n. n + 1) d))))
       0 (s, Inr [])"

definition estado_mas_avistamientos :: "store \<Rightarrow> ref \<Rightarrow> (store \<times> (py_error + pystr)) option" where
  "estado_mas_avistamientos s avistamientos =
     map_option
       (apsnd (\<lambda>conteo_por_estado.
          case py_max_key snd conteo_por_estado of
            Inl err \<Rightarrow> Inl err
          | Inr t \<Rightarrow> Inr (fst t)))
       (for_in avistamientos
          (solo_local (\<lambda>a c. defaultdict_modify (0::int) (estado a) (\<lambda>n. n + 1) c)) 0 (s, []))"

text \<open>
  \<open>hora_mas_avistamientos\<close>: \<open>most_common(1)\<close> is the list of the first entry of greatest
  count, empty for an empty counter, and \<open>[0]\<close> then raises \<open>IndexError\<close>.
\<close>

definition hora_mas_avistamientos :: "store \<Rightarrow> ref \<Rightarrow> (store \<times> (py_error + int)) option" where
  "hora_mas_avistamientos s avistamientos =
     map_option
       (apsnd (\<lambda>c.
          case py_getitem (case py_max_key snd c of Inl err \<Rightarrow> [] | Inr t \<Rightarrow> [t]) 0 of
            Inl err \<Rightarrow> Inl err
          | Inr t \<Rightarrow> Inr (fst t)))
       (for_in avistamientos
          (solo_local (\<lambda>a c. defaultdict_modify (0::int) (hour (fechahora a)) (\<lambda>n. n + 1) c))
          0 (s, []))"

definition longitud_media_comentarios_por_estado_st ::
  "store \<Rightarrow> ref \<Rightarrow> (store \<times> (py_error + (pystr \<times> real) list)) option" where
  "longitud_media_comentarios_por_estado_st s avistamientos =
     map_option (apsnd (\<lambda>longitudes_por_estado. medias_loop longitudes_por_estado []))
       (for_in avistamientos
          (solo_local (\<lambda>a d.
             defaultdict_modify [] (estado a) (\<lambda>l. l @ [int (length (comentarios a))]) d))
          0 (s, []))"

definition porc_avistamientos_por_forma_st ::
  "store \<Rightarrow> ref \<Rightarrow> (store \<times> (py_error + (pystr \<times> real) list)) option" where
  "porc_avistamientos_por_forma_st s avistamientos =
     map_option
       (\<lambda>(s1, conteo_por_formas).
          (s1, porc_loop (int (length (s1 ! avistamientos))) conteo_por_formas []))
       (for_in avistamientos
          (solo_local (\<lambda>a c. defaultdict_modify 0 (forma a) (\<lambda>n. n + 1) c)) 0 (s, []))"

definition porc_avistamientos_por_forma_bis_st ::
  "store \<Rightarrow> ref \<Rightarrow> int \<Rightarrow> (store \<times> (py_error + (pystr \<times> real) list)) option" where
  "porc_avistamientos_por_forma_bis_st s avistamientos anyo =
     map_option
       (apsnd (\<lambda>conteo_por_formas.
          porc_loop (sum_list (map snd conteo_por_formas)) conteo_por_formas []))
       (for_in avistamientos
          (solo_local (\<lambda>a c.
             if year (fechahora a) = anyo then defaultdict_modify 0 (forma a) (\<lambda>n. n + 1) c else c))
          0 (s, []))"

text \<open>
  Grouping by state into lists: \<open>avistamientos_por_estados[av.estado].append(av)\<close> on a
  \<open>defaultdict(list)\<close> allocates the list of a state that has none yet, and appends to
  the list object of the state. The dictionary holds the addresses of the lists.
\<close>

definition agrupa_paso ::
  "Avistamiento \<Rightarrow> store \<times> (pystr \<times> ref) list \<Rightarrow> store \<times> (pystr \<times> ref) list" where
  "agrupa_paso av st =
     (case map_of (snd st) (estado av) of
        None \<Rightarrow> (let (s1, l) = new_list [] (fst st)
                 in (list_append l av s1, snd st @ [(estado av, l)]))
      | Some l \<Rightarrow> (list_append l av (fst st), snd st))"

definition recorta_paso ::
  "int \<Rightarrow> pystr \<times> ref \<Rightarrow> store \<times> (pystr \<times> ref) list \<Rightarrow> store \<times> (pystr \<times> ref) list" where
  \<comment> \<open>the body of the second loop: sort the list of the state in place, store a slice of it\<close>
  "recorta_paso n item st =
     (let s1 = list_sort (snd item) duracion True (fst st);
          (s2, l) = new_list (py_slice_to n (s1 ! snd item)) s1
      in (s2, dict_set (fst item) l (snd st)))"

definition avistamientos_mayor_duracion_por_estado_st ::
  "store \<Rightarrow> ref \<Rightarrow> int \<Rightarrow> (store \<times> (pystr \<times> ref) list) option" where
  "avistamientos_mayor_duracion_por_estado_st s avistamientos n =
     map_option (\<lambda>(s1, avistamientos_por_estados).
          fold (recorta_paso n) avistamientos_por_estados (s1, avistamientos_por_estados))
       (for_in avistamientos agrupa_paso 0 (s, []))"

fun reciente_loop_st ::
  "store \<Rightarrow> (pystr \<times> ref) list \<Rightarrow> (pystr \<times> (ref + datetime)) list \<Rightarrow>
   py_error + (pystr \<times> (ref + datetime)) list" where
  "reciente_loop_st s [] d = Inr d"
| "reciente_loop_st s ((e, l) # items) d =
     (case py_max_key (\<lambda>a. dt_key (fechahora a)) (s ! l) of
        Inl err \<Rightarrow> Inl err
      | Inr a \<Rightarrow> reciente_loop_st s items (dict_set e (Inr (fechahora a)) d))"

definition avistamiento_mas_reciente_por_estado_st ::
  "store \<Rightarrow> ref \<Rightarrow> (store \<times> (py_error + (pystr \<times> (ref + datetime)) list)) option" where
  "avistamiento_mas_reciente_por_estado_st s avistamientos =
     map_option (\<lambda>(s1, avistamientos_por_estados).
          (s1, reciente_loop_st s1 avistamientos_por_estados
                 (map (\<lambda>(e, l). (e, Inl l)) avistamientos_por_estados)))
       (for_in avistamientos agrupa_paso 0 (s, []))"

text \<open>The operations whose body is \<open>pass\<close> return \<open>None\<close>.\<close>

definition anyo_mas_avistamientos_forma :: "store \<Rightarrow> ref \<Rightarrow> pystr \<Rightarrow> (store \<times> unit) option" where
  \<comment> \<open>\<open>a\<ntilde>o_mas_avistamientos_forma\<close>\<close>
  "anyo_mas_avistamientos_forma s avistamientos f = Some (s, ())"

definition estados_mas_avistamientos :: "store \<Rightarrow> ref \<Rightarrow> int \<Rightarrow> (store \<times> unit) option" where
  "estados_mas_avistamientos s avistamientos n = Some (s, ())"

definition duracion_total_avistamientos_anyo :: "store \<Rightarrow> ref \<Rightarrow> pystr \<Rightarrow> (store \<times> unit) option" where
  \<comment> \<open>\<open>duracion_total_avistamientos_a\<ntilde>o\<close>\<close>
  "duracion_total_avistamientos_anyo s avistamientos e = Some (s, ())"

text \<open>
  The outcome of a call leaves the lists of the store as they were: the call returns, the
  list at the address \<open>r\<close> is the same, and so is every list object that existed before.
\<close>

definition unchanged :: "store \<Rightarrow> ref \<Rightarrow> (store \<times> 'r) option \<Rightarrow> bool" where
  "unchanged s r out =
     (\<exists>s' res. out = Some (s', res) \<and> s' ! r = s ! r \<and> take (length s) s' = s)"

text \<open>
  The invariant of the grouping loop: the list objects that existed at the call are as
  they were, and the dictionary holds addresses of lists allocated since.
\<close>

definition frescos :: "store \<Rightarrow> store \<times> (pystr \<times> ref) list \<Rightarrow> bool" where
  "frescos s0 st =
     (length s0 \<le> length (fst st) \<and> take (length s0) (fst st) = s0 \<and>
      (\<forall>l\<in>snd ` set (snd st). length s0 \<le> l \<and> l < length (fst st)))"

section \<open>The mean of the day gaps, as the specification words it\<close>

text \<open>
  The specification of \<open>media_dias_entre_avistamientos\<close>: restrict to the year when one
  is given, sort ascending by timestamp, take the day difference of the calendar dates of
  each record and its successor, and average; no result with fewer than two records.
\<close>

definition media_dias_spec :: "Avistamiento list \<Rightarrow> int option \<Rightarrow> real option" where
  "media_dias_spec avistamientos anyo =
     (let disponibles =
            (case anyo of None \<Rightarrow> avistamientos
             | Some y \<Rightarrow> filter (\<lambda>a. year (fechahora a) = y) avistamientos);
          cronologico = sort_key (\<lambda>a. dt_key (fechahora a)) disponibles;
          diferencias =
            map (\<lambda>i. days_between (date_of (fechahora (cronologico ! i)))
                                   (date_of (fechahora (cronologico ! Suc i))))
              [0..<length cronologico - 1]
      in if length disponibles < 2 then None
         else Some (real_of_int (sum_list diferencias) / real (length diferencias)))"

text \<open>The day differences between each timestamp of a list and the next one.\<close>

definition gaps :: "datetime list \<Rightarrow> int list" where
  "gaps ts = map (\<lambda>(t1, t2). days_between (date_of t1) (date_of t2)) (zip ts (drop 1 ts))"

section \<open>Example records\<close>

text \<open>
  Concrete values on which the theorems below are instantiated: a timestamp at a given
  minute, a record at the origin, and a planar distance (the sum of the absolute
  differences of latitude and longitude) to stand for \<open>distancia\<close>.
\<close>

definition ej_fechahora :: "int \<Rightarrow> int \<Rightarrow> int \<Rightarrow> int \<Rightarrow> int \<Rightarrow> datetime" where
  "ej_fechahora y m d h mi =
     \<lparr>year = y, month = m, day = d, hour = h, minute = mi, second = 0, microsecond = 0\<rparr>"

definition ej_avistamiento ::
  "datetime \<Rightarrow> pystr \<Rightarrow> pystr \<Rightarrow> int \<Rightarrow> pystr \<Rightarrow> real \<Rightarrow> Avistamiento" where
  "ej_avistamiento t e f d c lat =
     \<lparr>fechahora = t, ciudad = [], estado = e, forma = f, duracion = d, comentarios = c,
      ubicacion = \<lparr>latitud = lat, longitud = 0\<rparr>\<rparr>"

definition ej_distancia :: "Coordenadas \<Rightarrow> Coordenadas \<Rightarrow> real" where
  "ej_distancia p q = \<bar>latitud p - latitud q\<bar> + \<bar>longitud p - longitud q\<bar>"

definition ej_origen :: Coordenadas where
  "ej_origen = \<lparr>latitud = 0, longitud = 0\<rparr>"

section \<open>Properties of the built-ins\<close>

lemma fold_append_filter:
  "fold (\<lambda>a acc. if P a then acc @ [a] else acc) xs ys = ys @ filter P xs"
  by (induction xs arbitrary: ys) auto

lemma mset_py_sort_key: "mset (py_sort_key key r xs) = mset xs"
  by (simp add: py_sort_key_def)

lemma set_py_sort_key: "set (py_sort_key key r xs) = set xs"
  by (simp add: py_sort_key_def)

lemma length_py_sort_key: "length (py_sort_key key r xs) = length xs"
  by (simp add: py_sort_key_def)

lemma py_sort_key_stable:
  "filter (\<lambda>y. key y = k) (py_sort_key key r xs) = filter (\<lambda>y. key y = k) xs"
  by (simp add: py_sort_key_def sort_key_stable rev_filter [symmetric])

lemma py_sort_key_descending:
  "sorted_wrt (\<lambda>a b. key a \<ge> key b) (py_sort_key key True xs)"
proof -
  have "sorted (map key (sort_key key (rev xs)))" by simp
  then have "sorted_wrt (\<lambda>a b. key a \<le> key b) (sort_key key (rev xs))"
    by (simp add: sorted_map)
  then show ?thesis
    by (simp add: py_sort_key_def sorted_wrt_rev)
qed

lemma dt_key_eq_iff: "dt_key s = dt_key t \<longleftrightarrow> s = t"
  by (cases s, cases t) (auto simp: dt_key_def)

lemma max_key_loop_mem: "max_key_loop key b xs \<in> set (b # xs)"
  by (induction xs arbitrary: b) (auto split: if_splits)

lemma max_key_loop_ge: "x \<in> set (b # xs) \<Longrightarrow> key x \<le> key (max_key_loop key b xs)"
proof (induction xs arbitrary: b x)
  case Nil
  then show ?case by simp
next
  case (Cons y ys)
  let ?b' = "if key y > key b then y else b"
  have le: "key b \<le> key (max_key_loop key ?b' ys)"
  proof -
    have "key b \<le> key ?b'" by (simp add: less_imp_le)
    also have "\<dots> \<le> key (max_key_loop key ?b' ys)"
      by (rule Cons.IH) simp
    finally show ?thesis .
  qed
  have ley: "key y \<le> key (max_key_loop key ?b' ys)"
  proof -
    have "key y \<le> key ?b'" by (simp add: not_less)
    also have "\<dots> \<le> key (max_key_loop key ?b' ys)"
      by (rule Cons.IH) simp
    finally show ?thesis .
  qed
  from Cons.prems consider "x = b" | "x = y" | "x \<in> set ys" by auto
  then show ?case
  proof cases
    case 1 then show ?thesis using le by simp
  next
    case 2 then show ?thesis using ley by simp
  next
    case 3 then show ?thesis using Cons.IH [of x ?b'] by simp
  qed
qed

lemma py_max_key_empty_iff: "py_max_key key xs = Inl ValueError \<longleftrightarrow> xs = []"
  by (simp add: py_max_key_def split: list.splits)

lemma py_max_key_Inl: "py_max_key key xs = Inl err \<Longrightarrow> xs = [] \<and> err = ValueError"
  by (simp add: py_max_key_def split: list.splits)

lemma py_max_key_Inr:
  "py_max_key key xs = Inr m \<Longrightarrow> m \<in> set xs \<and> (\<forall>x\<in>set xs. key x \<le> key m)"
  using max_key_loop_mem [of key] max_key_loop_ge [of _ _ _ key]
  by (auto simp: py_max_key_def split: list.splits)

lemma py_max_key_nonempty: "xs \<noteq> [] \<Longrightarrow> \<exists>m. py_max_key key xs = Inr m"
  by (simp add: py_max_key_def split: list.splits)

section \<open>Proximity filter\<close>

lemma cercanos_loop_eq:
  "cercanos_loop distancia u radio as res =
     res \<union> {a \<in> set as. distancia (ubicacion a) u < radio}"
  by (induction as arbitrary: res) auto

lemma avistamientos_cercanos_ubicacion_eq:
  "avistamientos_cercanos_ubicacion distancia as u radio =
     {a \<in> set as. distancia (ubicacion a) u < radio}"
  by (simp add: avistamientos_cercanos_ubicacion_def cercanos_loop_eq)

text \<open>
  Claim C5. A record is in the set returned by \<open>avistamientos_cercanos_ubicacion\<close> for
  the radius \<open>r\<close> exactly when it is a record of the list whose distance to the reference
  coordinate is strictly below \<open>r\<close> (the result is a set, so equal records are one
  element); the comprehension variant returns the same set; and the result for a radius
  \<open>r1\<close> is contained in the result for any greater radius \<open>r2\<close>.
\<close>

theorem cercanos_membership_monotone:
  "(a \<in> avistamientos_cercanos_ubicacion distancia avs u r \<longleftrightarrow>
      a \<in> set avs \<and> distancia (ubicacion a) u < r) \<and>
   avistamientos_cercanos_ubicacion2 distancia avs u r =
      avistamientos_cercanos_ubicacion distancia avs u r \<and>
   (r1 < r2 \<longrightarrow>
      avistamientos_cercanos_ubicacion distancia avs u r1 \<subseteq>
      avistamientos_cercanos_ubicacion distancia avs u r2)"
  by (auto simp: avistamientos_cercanos_ubicacion_eq avistamientos_cercanos_ubicacion2_def)

theorem cercanos_membership_monotone_witness:
  "(1::real) < 2 \<and>
   avistamientos_cercanos_ubicacion ej_distancia
     [ej_avistamiento (ej_fechahora 2020 1 1 0 0) [] [] 5 [] (1/2),
      ej_avistamiento (ej_fechahora 2020 1 1 0 0) [] [] 5 [] (3/2)] ej_origen 1 \<subseteq>
   avistamientos_cercanos_ubicacion ej_distancia
     [ej_avistamiento (ej_fechahora 2020 1 1 0 0) [] [] 5 [] (1/2),
      ej_avistamiento (ej_fechahora 2020 1 1 0 0) [] [] 5 [] (3/2)] ej_origen 2 \<and>
   ej_avistamiento (ej_fechahora 2020 1 1 0 0) [] [] 5 [] (3/2) \<notin>
   avistamientos_cercanos_ubicacion ej_distancia
     [ej_avistamiento (ej_fechahora 2020 1 1 0 0) [] [] 5 [] (1/2),
      ej_avistamiento (ej_fechahora 2020 1 1 0 0) [] [] 5 [] (3/2)] ej_origen 1"
  using cercanos_membership_monotone
    [of "ej_avistamiento (ej_fechahora 2020 1 1 0 0) [] [] 5 [] (3/2)" ej_distancia
        "[ej_avistamiento (ej_fechahora 2020 1 1 0 0) [] [] 5 [] (1/2),
          ej_avistamiento (ej_fechahora 2020 1 1 0 0) [] [] 5 [] (3/2)]" ej_origen 1 1 2]
  by (simp add: ej_avistamiento_def ej_distancia_def ej_origen_def)

section \<open>Extremal queries\<close>

text \<open>
  Claim C2. \<open>avistamiento_cercano_mayor_duracion\<close> returns \<open>None\<close> exactly when no record
  of the list is at a distance strictly below the radius; otherwise it returns the pair
  \<open>(duracion, comentarios)\<close> of one of those records, and that pair is greater than or
  equal to the pair of every one of them in the order of tuples: the duration decides,
  and the comments decide between equal durations.
\<close>

theorem cercano_mayor_duracion_max:
  "(avistamiento_cercano_mayor_duracion distancia avs c r = None \<longleftrightarrow>
      {a \<in> set avs. distancia (ubicacion a) c < r} = {}) \<and>
   (\<forall>p. avistamiento_cercano_mayor_duracion distancia avs c r = Some p \<longrightarrow>
      (\<exists>a\<in>set avs. distancia (ubicacion a) c < r \<and> p = (duracion a, comentarios a)) \<and>
      (\<forall>b\<in>set avs. distancia (ubicacion b) c < r \<longrightarrow>
         (duracion b, comentarios b) \<le> p \<and>
         (duracion b < fst p \<or> (duracion b = fst p \<and> comentarios b \<le> snd p))))"
proof -
  let ?S = "{a \<in> set avs. distancia (ubicacion a) c < r}"
  let ?I = "(\<lambda>a. (duracion a, comentarios a)) ` ?S"
  have fin: "finite ?S" by simp
  have card: "card ?S > 0 \<longleftrightarrow> ?S \<noteq> {}" using fin by (simp add: card_gt_0_iff)
  have res: "avistamiento_cercano_mayor_duracion distancia avs c r =
      (if ?S \<noteq> {} then Some (Max ?I) else None)"
    unfolding avistamiento_cercano_mayor_duracion_def avistamientos_cercanos_ubicacion_eq Let_def
    using card by simp
  have none: "avistamiento_cercano_mayor_duracion distancia avs c r = None \<longleftrightarrow> ?S = {}"
    by (simp add: res)
  have some: "(\<exists>a\<in>set avs. distancia (ubicacion a) c < r \<and> p = (duracion a, comentarios a)) \<and>
      (\<forall>b\<in>set avs. distancia (ubicacion b) c < r \<longrightarrow>
         (duracion b, comentarios b) \<le> p \<and>
         (duracion b < fst p \<or> (duracion b = fst p \<and> comentarios b \<le> snd p)))"
    if p: "avistamiento_cercano_mayor_duracion distancia avs c r = Some p" for p
  proof -
    from p have ne: "?S \<noteq> {}" and pm: "p = Max ?I"
      by (auto simp: res split: if_splits)
    have finI: "finite ?I" and neI: "?I \<noteq> {}" using fin ne by auto
    have "Max ?I \<in> ?I" by (rule Max_in [OF finI neI])
    then have ex: "\<exists>a\<in>set avs. distancia (ubicacion a) c < r \<and> p = (duracion a, comentarios a)"
      unfolding pm by auto
    have ub: "(duracion b, comentarios b) \<le> p"
      if "b \<in> set avs" "distancia (ubicacion b) c < r" for b
    proof -
      have "(duracion b, comentarios b) \<in> ?I" using that by auto
      then show ?thesis unfolding pm by (rule Max_ge [OF finI])
    qed
    have lex: "duracion b < fst p \<or> (duracion b = fst p \<and> comentarios b \<le> snd p)"
      if "b \<in> set avs" "distancia (ubicacion b) c < r" for b
      using ub [OF that] by (cases p) (auto simp: less_eq_prod_def)
    show ?thesis using ex ub lex by blast
  qed
  show ?thesis using none some by blast
qed

text \<open>
  Three records, of durations 5, 5 and 9 and comments \<open>b\<close>, \<open>aa\<close> and the empty string,
  at distances 0.1, 0.2 and 3 of the origin: with the default radius the third is too far,
  and of the two others \<open>(5, b)\<close> is the greater pair.
\<close>

theorem cercano_mayor_duracion_max_witness:
  "avistamiento_cercano_mayor_duracion ej_distancia
     [ej_avistamiento (ej_fechahora 2020 1 1 0 0) [] [] 5 [98] (1/10),
      ej_avistamiento (ej_fechahora 2020 1 1 0 0) [] [] 5 [97, 97] (1/5),
      ej_avistamiento (ej_fechahora 2020 1 1 0 0) [] [] 9 [] 3] ej_origen radio_por_defecto
     = Some (5, [98]) \<and>
   (5, [97, 97]) \<le> (5 :: int, [98 :: nat]) \<and>
   avistamiento_cercano_mayor_duracion ej_distancia
     [ej_avistamiento (ej_fechahora 2020 1 1 0 0) [] [] 9 [] 3] ej_origen radio_por_defecto = None"
proof -
  let ?L = "[ej_avistamiento (ej_fechahora 2020 1 1 0 0) [] [] 5 [98] (1/10),
      ej_avistamiento (ej_fechahora 2020 1 1 0 0) [] [] 5 [97, 97] (1/5),
      ej_avistamiento (ej_fechahora 2020 1 1 0 0) [] [] 9 [] 3]"
  have ev: "avistamiento_cercano_mayor_duracion ej_distancia ?L ej_origen radio_por_defecto
      = Some (5, [98])"
    by (simp add: avistamiento_cercano_mayor_duracion_def avistamientos_cercanos_ubicacion_def
        ej_avistamiento_def ej_distancia_def ej_origen_def radio_por_defecto_def less_eq_prod_def)
  have near: "ej_avistamiento (ej_fechahora 2020 1 1 0 0) [] [] 5 [97, 97] (1/5) \<in> set ?L"
    "ej_distancia (ubicacion (ej_avistamiento (ej_fechahora 2020 1 1 0 0) [] [] 5 [97, 97] (1/5)))
       ej_origen < radio_por_defecto"
    by (simp_all add: ej_avistamiento_def ej_distancia_def ej_origen_def radio_por_defecto_def)
  have le: "(5, [97, 97]) \<le> (5 :: int, [98 :: nat])"
    using cercano_mayor_duracion_max [of ej_distancia ?L ej_origen radio_por_defecto] ev near
    by (auto simp: ej_avistamiento_def)
  have none: "avistamiento_cercano_mayor_duracion ej_distancia
     [ej_avistamiento (ej_fechahora 2020 1 1 0 0) [] [] 9 [] 3] ej_origen radio_por_defecto = None"
    using cercano_mayor_duracion_max
      [of ej_distancia "[ej_avistamiento (ej_fechahora 2020 1 1 0 0) [] [] 9 [] 3]"
          ej_origen radio_por_defecto]
    by (simp add: ej_avistamiento_def ej_distancia_def ej_origen_def radio_por_defecto_def)
  show ?thesis using ev le none by blast
qed

lemma py_in_sublist: "py_in p s \<longleftrightarrow> sublist p s"
proof (induction s)
  case Nil
  then show ?case by auto
next
  case (Cons c cs)
  have "take (length p) (c # cs) = p \<longleftrightarrow> prefix p (c # cs)"
    by (metis prefix_def append_eq_conv_conj take_is_prefix)
  then show ?case using Cons by (simp add: sublist_Cons_right)
qed

text \<open>
  Claim C1, as the code has it. When no record has the given shape,
  \<open>avistamiento_mayor_duracion\<close> (in both variants) raises \<open>ValueError\<close>, the exception of
  \<open>max\<close> on an empty argument, and when no record of the given year has a comment that
  contains the word, \<open>comentario_mas_largo\<close> raises it too. They raise in no other case and
  raise nothing else: otherwise they return an eligible record whose duration, or whose
  comment length, is the greatest among the eligible records. No default value is returned.
\<close>

theorem empty_selection_raises_ValueError:
  "(avistamiento_mayor_duracion avs f = Inl ValueError \<longleftrightarrow> (\<forall>a\<in>set avs. forma a \<noteq> f)) \<and>
   avistamiento_mayor_duracion2 avs f = avistamiento_mayor_duracion avs f \<and>
   (comentario_mas_largo lower avs y p = Inl ValueError \<longleftrightarrow>
      (\<forall>a\<in>set avs. \<not> (year (fechahora a) = y \<and> py_in (lower p) (lower (comentarios a))))) \<and>
   (\<forall>err. avistamiento_mayor_duracion avs f = Inl err \<or> comentario_mas_largo lower avs y p = Inl err
      \<longrightarrow> err = ValueError) \<and>
   (\<forall>m. avistamiento_mayor_duracion avs f = Inr m \<longrightarrow>
      m \<in> set avs \<and> forma m = f \<and> (\<forall>a\<in>set avs. forma a = f \<longrightarrow> duracion a \<le> duracion m)) \<and>
   (\<forall>m. comentario_mas_largo lower avs y p = Inr m \<longrightarrow>
      m \<in> set avs \<and> year (fechahora m) = y \<and> py_in (lower p) (lower (comentarios m)) \<and>
      (\<forall>a\<in>set avs. year (fechahora a) = y \<and> py_in (lower p) (lower (comentarios a)) \<longrightarrow>
         length (comentarios a) \<le> length (comentarios m)))"
proof -
  let ?P = "\<lambda>a. forma a = f"
  let ?Q = "\<lambda>a. year (fechahora a) = y \<and> py_in (lower p) (lower (comentarios a))"
  have amd: "avistamiento_mayor_duracion avs f = py_max_key duracion (filter ?P avs)"
    by (simp add: avistamiento_mayor_duracion_def fold_append_filter)
  have cml: "comentario_mas_largo lower avs y p =
      py_max_key (\<lambda>a. length (comentarios a)) (filter ?Q avs)"
    by (simp add: comentario_mas_largo_def fold_append_filter)
  have c1: "avistamiento_mayor_duracion avs f = Inl ValueError \<longleftrightarrow> (\<forall>a\<in>set avs. forma a \<noteq> f)"
    by (simp add: amd py_max_key_empty_iff filter_empty_conv)
  have c2: "avistamiento_mayor_duracion2 avs f = avistamiento_mayor_duracion avs f"
    by (simp add: amd avistamiento_mayor_duracion2_def)
  have c3: "comentario_mas_largo lower avs y p = Inl ValueError \<longleftrightarrow> (\<forall>a\<in>set avs. \<not> ?Q a)"
    by (simp add: cml py_max_key_empty_iff filter_empty_conv)
  have c4: "\<forall>err. avistamiento_mayor_duracion avs f = Inl err \<or>
      comentario_mas_largo lower avs y p = Inl err \<longrightarrow> err = ValueError"
    by (auto simp: amd cml dest: py_max_key_Inl)
  have c5: "\<forall>m. avistamiento_mayor_duracion avs f = Inr m \<longrightarrow>
      m \<in> set avs \<and> forma m = f \<and> (\<forall>a\<in>set avs. forma a = f \<longrightarrow> duracion a \<le> duracion m)"
    unfolding amd by (auto dest: py_max_key_Inr)
  have c6: "\<forall>m. comentario_mas_largo lower avs y p = Inr m \<longrightarrow>
      m \<in> set avs \<and> ?Q m \<and> (\<forall>a\<in>set avs. ?Q a \<longrightarrow> length (comentarios a) \<le> length (comentarios m))"
    unfolding cml by (auto dest: py_max_key_Inr)
  show ?thesis using c1 c2 c3 c4 c5 c6 by blast
qed

text \<open>
  One record of shape \<open>[1]\<close> and year 2020: asked for the shape \<open>[2]\<close>, and for the year
  2021, both operations raise \<open>ValueError\<close>.
\<close>

theorem empty_selection_raises_ValueError_witness:
  "forma (ej_avistamiento (ej_fechahora 2020 1 1 0 0) [] [1] 5 [] 0) \<noteq> [2] \<and>
   avistamiento_mayor_duracion [ej_avistamiento (ej_fechahora 2020 1 1 0 0) [] [1] 5 [] 0] [2]
     = Inl ValueError \<and>
   avistamiento_mayor_duracion2 [ej_avistamiento (ej_fechahora 2020 1 1 0 0) [] [1] 5 [] 0] [2]
     = Inl ValueError \<and>
   comentario_mas_largo (\<lambda>s. s) [ej_avistamiento (ej_fechahora 2020 1 1 0 0) [] [1] 5 [] 0] 2021 []
     = Inl ValueError"
  using empty_selection_raises_ValueError
    [of "[ej_avistamiento (ej_fechahora 2020 1 1 0 0) [] [1] 5 [] 0]" "[2]" "\<lambda>s. s" 2021 "[]"]
  by (simp add: ej_avistamiento_def ej_fechahora_def)

text \<open>
  Claim C1, as stated, fails: on a list with no eligible record the outcome is not a
  "no result" value but the exception \<open>ValueError\<close> of the built-in \<open>max\<close>.
\<close>

theorem empty_selection_counterexample:
  "avistamiento_mayor_duracion [ej_avistamiento (ej_fechahora 2020 1 1 0 0) [] [1] 5 [] 0] [2]
     = Inl ValueError \<and>
   comentario_mas_largo (\<lambda>s. s) [] 2020 [] = Inl ValueError"
  by (simp add: avistamiento_mayor_duracion_def comentario_mas_largo_def py_max_key_def
      ej_avistamiento_def)

section \<open>Range query\<close>

text \<open>
  Claim C3. \<open>avistamientos_fechas\<close> returns, with their multiplicities, exactly the
  records whose date is on or after \<open>fecha_inicial\<close> and on or before \<open>fecha_final\<close>, a
  bound \<open>None\<close> imposing nothing; with both bounds \<open>None\<close> these are all the records. The
  result is in descending order of timestamp, and the records of any one timestamp are in
  the order in which the input has them.
\<close>

theorem avistamientos_fechas_range_sorted_stable:
  "mset (avistamientos_fechas avs fi ff) =
     filter_mset (\<lambda>a. (\<forall>d. fi = Some d \<longrightarrow> date_key d \<le> date_key (date_of (fechahora a))) \<and>
                      (\<forall>d. ff = Some d \<longrightarrow> date_key (date_of (fechahora a)) \<le> date_key d)) (mset avs) \<and>
   (fi = None \<and> ff = None \<longrightarrow> mset (avistamientos_fechas avs fi ff) = mset avs) \<and>
   sorted_wrt (\<lambda>a b. dt_key (fechahora a) \<ge> dt_key (fechahora b)) (avistamientos_fechas avs fi ff) \<and>
   (\<forall>t. filter (\<lambda>a. fechahora a = t) (avistamientos_fechas avs fi ff) =
        filter (\<lambda>a. fechahora a = t)
          (filter (\<lambda>a. (\<forall>d. fi = Some d \<longrightarrow> date_key d \<le> date_key (date_of (fechahora a))) \<and>
                       (\<forall>d. ff = Some d \<longrightarrow> date_key (date_of (fechahora a)) \<le> date_key d)) avs))"
proof -
  let ?R = "\<lambda>a. (\<forall>d. fi = Some d \<longrightarrow> date_key d \<le> date_key (date_of (fechahora a))) \<and>
                      (\<forall>d. ff = Some d \<longrightarrow> date_key (date_of (fechahora a)) \<le> date_key d)"
  have R: "en_rango fi ff = ?R"
    by (cases fi; cases ff) (auto simp: en_rango_def fun_eq_iff)
  have af: "avistamientos_fechas avs fi ff =
      py_sort_key (\<lambda>a. dt_key (fechahora a)) True (filter ?R avs)"
    by (simp add: avistamientos_fechas_def fold_append_filter R)
  have m: "mset (avistamientos_fechas avs fi ff) = filter_mset ?R (mset avs)"
    unfolding af mset_py_sort_key by simp
  have full: "fi = None \<and> ff = None \<longrightarrow> mset (avistamientos_fechas avs fi ff) = mset avs"
    unfolding m by simp
  have srt: "sorted_wrt (\<lambda>a b. dt_key (fechahora a) \<ge> dt_key (fechahora b)) (avistamientos_fechas avs fi ff)"
    unfolding af by (rule py_sort_key_descending)
  have stab: "filter (\<lambda>a. fechahora a = t) (avistamientos_fechas avs fi ff) =
        filter (\<lambda>a. fechahora a = t) (filter ?R avs)" for t
  proof -
    have eq: "(\<lambda>a. fechahora a = t) = (\<lambda>a. dt_key (fechahora a) = dt_key t)"
      by (simp add: dt_key_eq_iff)
    show ?thesis unfolding af eq by (rule py_sort_key_stable)
  qed
  show ?thesis using m full srt stab by blast
qed

text \<open>
  Four records, at 2020-01-01 10:00, twice at 2020-01-05 08:30 (states \<open>[2]\<close> and \<open>[3]\<close>,
  in this order) and at 2020-02-01: the range from 2020-01-01 to 2020-01-31 keeps the
  first three, the two records of 2020-01-05 first and in their input order.
\<close>

theorem avistamientos_fechas_range_sorted_stable_witness:
  "avistamientos_fechas
     [ej_avistamiento (ej_fechahora 2020 1 1 10 0) [1] [] 5 [] 0,
      ej_avistamiento (ej_fechahora 2020 1 5 8 30) [2] [] 5 [] 0,
      ej_avistamiento (ej_fechahora 2020 1 5 8 30) [3] [] 5 [] 0,
      ej_avistamiento (ej_fechahora 2020 2 1 0 0) [4] [] 5 [] 0]
     (Some \<lparr>year = 2020, month = 1, day = 1\<rparr>) (Some \<lparr>year = 2020, month = 1, day = 31\<rparr>) =
     [ej_avistamiento (ej_fechahora 2020 1 5 8 30) [2] [] 5 [] 0,
      ej_avistamiento (ej_fechahora 2020 1 5 8 30) [3] [] 5 [] 0,
      ej_avistamiento (ej_fechahora 2020 1 1 10 0) [1] [] 5 [] 0] \<and>
   sorted_wrt (\<lambda>a b. dt_key (fechahora a) \<ge> dt_key (fechahora b))
     [ej_avistamiento (ej_fechahora 2020 1 5 8 30) [2] [] 5 [] 0,
      ej_avistamiento (ej_fechahora 2020 1 5 8 30) [3] [] 5 [] 0,
      ej_avistamiento (ej_fechahora 2020 1 1 10 0) [1] [] 5 [] 0] \<and>
   mset (avistamientos_fechas
     [ej_avistamiento (ej_fechahora 2020 1 1 10 0) [1] [] 5 [] 0,
      ej_avistamiento (ej_fechahora 2020 1 5 8 30) [2] [] 5 [] 0] None None) =
   mset [ej_avistamiento (ej_fechahora 2020 1 1 10 0) [1] [] 5 [] 0,
      ej_avistamiento (ej_fechahora 2020 1 5 8 30) [2] [] 5 [] 0]"
proof -
  let ?L = "[ej_avistamiento (ej_fechahora 2020 1 1 10 0) [1] [] 5 [] 0,
      ej_avistamiento (ej_fechahora 2020 1 5 8 30) [2] [] 5 [] 0,
      ej_avistamiento (ej_fechahora 2020 1 5 8 30) [3] [] 5 [] 0,
      ej_avistamiento (ej_fechahora 2020 2 1 0 0) [4] [] 5 [] 0]"
  let ?fi = "Some \<lparr>year = 2020, month = 1, day = 1\<rparr>"
  let ?ff = "Some \<lparr>year = 2020, month = 1, day = 31\<rparr>"
  have ev: "avistamientos_fechas ?L ?fi ?ff =
     [ej_avistamiento (ej_fechahora 2020 1 5 8 30) [2] [] 5 [] 0,
      ej_avistamiento (ej_fechahora 2020 1 5 8 30) [3] [] 5 [] 0,
      ej_avistamiento (ej_fechahora 2020 1 1 10 0) [1] [] 5 [] 0]"
    by (simp add: avistamientos_fechas_def en_rango_def py_sort_key_def date_key_def date_of_def
        dt_key_def ej_avistamiento_def ej_fechahora_def less_eq_prod_def)
  have srt: "sorted_wrt (\<lambda>a b. dt_key (fechahora a) \<ge> dt_key (fechahora b))
     (avistamientos_fechas ?L ?fi ?ff)"
    using avistamientos_fechas_range_sorted_stable [of ?L ?fi ?ff] by blast
  have full: "mset (avistamientos_fechas
     [ej_avistamiento (ej_fechahora 2020 1 1 10 0) [1] [] 5 [] 0,
      ej_avistamiento (ej_fechahora 2020 1 5 8 30) [2] [] 5 [] 0] None None) =
   mset [ej_avistamiento (ej_fechahora 2020 1 1 10 0) [1] [] 5 [] 0,
      ej_avistamiento (ej_fechahora 2020 1 5 8 30) [2] [] 5 [] 0]"
    using avistamientos_fechas_range_sorted_stable
      [of "[ej_avistamiento (ej_fechahora 2020 1 1 10 0) [1] [] 5 [] 0,
      ej_avistamiento (ej_fechahora 2020 1 5 8 30) [2] [] 5 [] 0]" None None] by blast
  show ?thesis using ev srt full by simp
qed

section \<open>Mean of the day gaps\<close>

lemma av_key_le_dt_key:
  "av_key a \<le> av_key b \<Longrightarrow> dt_key (fechahora a) \<le> dt_key (fechahora b)"
  by (auto simp: av_key_def less_eq_prod_def [of "(dt_key (fechahora a), _)"])

lemma sorted_timestamps_of_sorted_records:
  "sorted (map (\<lambda>a. dt_key (fechahora a)) (sort_key av_key xs))"
proof -
  have "sorted_wrt (\<lambda>a b. av_key a \<le> av_key b) (sort_key av_key xs)"
    using sorted_sort_key [of av_key xs] by (simp add: sorted_map)
  then have "sorted_wrt (\<lambda>a b. dt_key (fechahora a) \<le> dt_key (fechahora b)) (sort_key av_key xs)"
    by (rule sorted_wrt_mono_rel [rotated]) (simp add: av_key_le_dt_key)
  then show ?thesis by (simp add: sorted_map)
qed

lemma timestamps_sort_key_unique:
  "map fechahora (sort_key av_key xs) = map fechahora (sort_key (\<lambda>a. dt_key (fechahora a)) xs)"
proof -
  let ?k = "\<lambda>a. dt_key (fechahora a)"
  have 1: "sort (map ?k xs) = map ?k (sort_key av_key xs)"
    by (rule properties_for_sort) (simp_all add: sorted_timestamps_of_sorted_records)
  have 2: "sort (map ?k xs) = map ?k (sort_key ?k xs)"
    by (rule properties_for_sort) simp_all
  have "map dt_key (map fechahora (sort_key av_key xs)) =
        map dt_key (map fechahora (sort_key ?k xs))"
    using 1 2 by (simp add: comp_def)
  moreover have "inj dt_key" by (simp add: inj_def dt_key_eq_iff)
  ultimately show ?thesis by (simp only: inj_map_eq_map)
qed

lemma gaps_zip:
  "map (\<lambda>(a1, a2). days_between (date_of (fechahora a1)) (date_of (fechahora a2)))
     (zip xs (drop 1 xs)) = gaps (map fechahora xs)"
  by (simp add: gaps_def drop_map zip_map_map case_prod_unfold)

lemma gaps_index:
  "map (\<lambda>i. days_between (date_of (fechahora (xs ! i))) (date_of (fechahora (xs ! Suc i))))
     [0..<length xs - 1] = gaps (map fechahora xs)"
  by (rule nth_equalityI) (auto simp: gaps_def)

lemma length_gaps: "length (gaps ts) = length ts - 1"
  by (simp add: gaps_def)

text \<open>
  Claim C4. \<open>media_dias_entre_avistamientos\<close> computes what the specification words:
  the arithmetic mean of the day differences between the calendar dates of consecutive
  records in ascending order of timestamp, over the records of the year when one is
  given and over all of them otherwise. It returns \<open>None\<close> exactly when fewer than two
  records are available. Three records dated 2020-01-01, 2020-01-10 and 2020-01-20 give
  9.5. (The division is exact here; Python rounds the quotient to the nearest float.)
\<close>

theorem media_dias_mean_of_gaps:
  "media_dias_entre_avistamientos avs anyo = media_dias_spec avs anyo \<and>
   (media_dias_entre_avistamientos avs anyo = None \<longleftrightarrow>
      length (case anyo of None \<Rightarrow> avs | Some y \<Rightarrow> filter (\<lambda>a. year (fechahora a) = y) avs) < 2) \<and>
   (date_of (fechahora a) = \<lparr>year = 2020, month = 1, day = 1\<rparr> \<and>
    date_of (fechahora b) = \<lparr>year = 2020, month = 1, day = 10\<rparr> \<and>
    date_of (fechahora c) = \<lparr>year = 2020, month = 1, day = 20\<rparr> \<longrightarrow>
      media_dias_entre_avistamientos [a, b, c] None = Some (19 / 2))"
proof -
  define sel where "sel = (case anyo of None \<Rightarrow> avs | Some y \<Rightarrow> filter (\<lambda>a. year (fechahora a) = y) avs)"
  let ?k = "\<lambda>a. dt_key (fechahora a)"
  have code: "media_dias_entre_avistamientos avs anyo =
      (if length (gaps (map fechahora (sort_key av_key sel))) > 0
       then Some (real_of_int (sum_list (gaps (map fechahora (sort_key av_key sel)))) /
                  real (length (gaps (map fechahora (sort_key av_key sel)))))
       else None)"
    unfolding media_dias_entre_avistamientos_def Let_def py_sort_key_def gaps_zip sel_def by simp
  have spec: "media_dias_spec avs anyo =
      (if length sel < 2 then None
       else Some (real_of_int (sum_list (gaps (map fechahora (sort_key ?k sel)))) /
                  real (length (gaps (map fechahora (sort_key ?k sel))))))"
    unfolding media_dias_spec_def Let_def gaps_index sel_def by simp
  have len: "length (gaps (map fechahora (sort_key av_key sel))) > 0 \<longleftrightarrow> \<not> length sel < 2"
    by (auto simp: length_gaps)
  have eq: "media_dias_entre_avistamientos avs anyo = media_dias_spec avs anyo"
    unfolding code spec timestamps_sort_key_unique [of sel]
    using len by (simp add: length_gaps)
  have none: "media_dias_entre_avistamientos avs anyo = None \<longleftrightarrow> length sel < 2"
    unfolding eq spec by simp
  have ex: "media_dias_entre_avistamientos [a, b, c] None = Some (19 / 2)"
    if "date_of (fechahora a) = \<lparr>year = 2020, month = 1, day = 1\<rparr>"
       "date_of (fechahora b) = \<lparr>year = 2020, month = 1, day = 10\<rparr>"
       "date_of (fechahora c) = \<lparr>year = 2020, month = 1, day = 20\<rparr>"
  proof -
    from that have f: "year (fechahora a) = 2020" "month (fechahora a) = 1" "day (fechahora a) = 1"
      "year (fechahora b) = 2020" "month (fechahora b) = 1" "day (fechahora b) = 10"
      "year (fechahora c) = 2020" "month (fechahora c) = 1" "day (fechahora c) = 20"
      by (simp_all add: date_of_def)
    have ab: "av_key a \<le> av_key b" and bc: "av_key b \<le> av_key c" and ac: "av_key a \<le> av_key c"
      by (simp_all add: av_key_def dt_key_def f less_eq_prod_def)
    show ?thesis
      unfolding media_dias_entre_avistamientos_def Let_def py_sort_key_def
      by (simp add: ab bc ac that days_between_def toordinal_def days_before_year_def
          days_before_month_def days_in_month_table_def is_leap_def)
  qed
  show ?thesis using eq none ex unfolding sel_def by blast
qed

theorem media_dias_mean_of_gaps_witness:
  "media_dias_entre_avistamientos
     [ej_avistamiento (ej_fechahora 2020 1 1 10 0) [] [] 5 [] 0,
      ej_avistamiento (ej_fechahora 2020 1 10 8 30) [] [] 5 [] 0,
      ej_avistamiento (ej_fechahora 2020 1 20 23 59) [] [] 5 [] 0] None = Some (19 / 2) \<and>
   media_dias_entre_avistamientos
     [ej_avistamiento (ej_fechahora 2020 1 1 10 0) [] [] 5 [] 0,
      ej_avistamiento (ej_fechahora 2021 1 10 8 30) [] [] 5 [] 0] (Some 2020) = None"
proof -
  have 1: "media_dias_entre_avistamientos
     [ej_avistamiento (ej_fechahora 2020 1 1 10 0) [] [] 5 [] 0,
      ej_avistamiento (ej_fechahora 2020 1 10 8 30) [] [] 5 [] 0,
      ej_avistamiento (ej_fechahora 2020 1 20 23 59) [] [] 5 [] 0] None = Some (19 / 2)"
    using media_dias_mean_of_gaps
      [of "[]" None "ej_avistamiento (ej_fechahora 2020 1 1 10 0) [] [] 5 [] 0"
          "ej_avistamiento (ej_fechahora 2020 1 10 8 30) [] [] 5 [] 0"
          "ej_avistamiento (ej_fechahora 2020 1 20 23 59) [] [] 5 [] 0"]
    by (simp add: ej_avistamiento_def ej_fechahora_def date_of_def)
  have 2: "media_dias_entre_avistamientos
     [ej_avistamiento (ej_fechahora 2020 1 1 10 0) [] [] 5 [] 0,
      ej_avistamiento (ej_fechahora 2021 1 10 8 30) [] [] 5 [] 0] (Some 2020) = None"
    using media_dias_mean_of_gaps
      [of "[ej_avistamiento (ej_fechahora 2020 1 1 10 0) [] [] 5 [] 0,
            ej_avistamiento (ej_fechahora 2021 1 10 8 30) [] [] 5 [] 0]" "Some 2020",
          THEN conjunct2, THEN conjunct1]
    by (simp add: ej_avistamiento_def ej_fechahora_def)
  show ?thesis using 1 2 by blast
qed

section \<open>Dictionaries and grouping\<close>

lemma dict_set_fresh: "k \<notin> fst ` set d \<Longrightarrow> dict_set k v d = d @ [(k, v)]"
  by (induction d) auto

lemma keys_dict_set_in: "k \<in> fst ` set d \<Longrightarrow> map fst (dict_set k v d) = map fst d"
  by (induction d) force+

lemma keys_dict_set_notin: "k \<notin> fst ` set d \<Longrightarrow> map fst (dict_set k v d) = map fst d @ [k]"
  by (induction d) auto

lemma keys_dict_set:
  "map fst (dict_set k v d) = (if k \<in> fst ` set d then map fst d else map fst d @ [k])"
  by (simp add: keys_dict_set_in keys_dict_set_notin)

lemma map_of_dict_set: "map_of (dict_set k v d) = (map_of d)(k \<mapsto> v)"
  by (induction d) (auto simp: fun_eq_iff)

lemma keys_dict_modify: "map fst (dict_modify k f d) = map fst d"
  by (induction d) auto

lemma map_of_dict_modify:
  "map_of (dict_modify k f d) k' =
     (if k' = k then map_option f (map_of d k) else map_of d k')"
  by (induction d) auto

lemma keys_defaultdict_modify_in:
  "k \<in> fst ` set d \<Longrightarrow> map fst (defaultdict_modify dflt k f d) = map fst d"
  by (induction d) force+

lemma keys_defaultdict_modify_notin:
  "k \<notin> fst ` set d \<Longrightarrow> map fst (defaultdict_modify dflt k f d) = map fst d @ [k]"
  by (induction d) auto

lemma keys_defaultdict_modify:
  "map fst (defaultdict_modify dflt k f d) =
     (if k \<in> fst ` set d then map fst d else map fst d @ [k])"
  by (simp add: keys_defaultdict_modify_in keys_defaultdict_modify_notin)

lemma map_of_defaultdict_modify:
  "map_of (defaultdict_modify dflt k f d) k' =
     (if k' = k then Some (f (case map_of d k of None \<Rightarrow> dflt | Some v \<Rightarrow> v)) else map_of d k')"
  by (induction d) auto

lemma distinct_defaultdict_modify:
  "distinct (map fst d) \<Longrightarrow> distinct (map fst (defaultdict_modify dflt k f d))"
  by (simp add: keys_defaultdict_modify)

lemma set_keys_defaultdict_modify:
  "fst ` set (defaultdict_modify dflt k f d) = insert k (fst ` set d)"
  using keys_defaultdict_modify [of dflt k f d]
  by (metis (no_types, lifting) insert_absorb list.set_map set_append list.simps(15) Un_insert_right
      sup_bot.right_neutral empty_set)

text \<open>Grouping: a loop of \<open>defaultdict_modify\<close> that appends to the list of each key.\<close>

lemma group_fold_keys:
  "fst ` set (fold (\<lambda>a d. defaultdict_modify [] (key a) (\<lambda>l. l @ [val a]) d) xs d0) =
     fst ` set d0 \<union> key ` set xs"
  by (induction xs arbitrary: d0) (auto simp: set_keys_defaultdict_modify)

lemma group_fold_distinct:
  "distinct (map fst d0) \<Longrightarrow>
   distinct (map fst (fold (\<lambda>a d. defaultdict_modify dflt (key a) (g a) d) xs d0))"
  by (induction xs arbitrary: d0) (auto simp: distinct_defaultdict_modify)

lemma group_fold_map_of:
  "map_of (fold (\<lambda>a d. defaultdict_modify [] (key a) (\<lambda>l. l @ [val a]) d) xs d0) e =
     (case map_of d0 e of
        None \<Rightarrow> if filter (\<lambda>a. key a = e) xs = [] then None
                 else Some (map val (filter (\<lambda>a. key a = e) xs))
      | Some l \<Rightarrow> Some (l @ map val (filter (\<lambda>a. key a = e) xs)))"
  by (induction xs arbitrary: d0) (auto simp: map_of_defaultdict_modify split: option.splits)

lemma agrupa_por_estado_keys: "fst ` set (agrupa_por_estado avs) = estado ` set avs"
  by (simp add: agrupa_por_estado_def group_fold_keys)

lemma agrupa_por_estado_distinct: "distinct (map fst (agrupa_por_estado avs))"
  by (simp add: agrupa_por_estado_def group_fold_distinct)

lemma agrupa_por_estado_map_of:
  "map_of (agrupa_por_estado avs) e =
     (if filter (\<lambda>a. estado a = e) avs = [] then None else Some (filter (\<lambda>a. estado a = e) avs))"
  using group_fold_map_of [of estado "\<lambda>a. a" avs "[]" e]
  by (simp add: agrupa_por_estado_def)

lemma agrupa_por_estado_mem:
  "(e, l) \<in> set (agrupa_por_estado avs) \<Longrightarrow> l = filter (\<lambda>a. estado a = e) avs \<and> l \<noteq> []"
  using agrupa_por_estado_map_of [of avs e] agrupa_por_estado_distinct [of avs]
  by (auto split: if_splits)

text \<open>In-place replacement of every value of a dictionary.\<close>

lemma dict_set_middle:
  "k \<notin> fst ` set xs \<Longrightarrow> dict_set k v (xs @ (k, w) # ys) = xs @ (k, v) # ys"
  by (induction xs) auto

lemma replace_values_fold_gen:
  "distinct (map fst (xs @ ys)) \<Longrightarrow>
   fold (\<lambda>(e, l) d. dict_set e (g l) d) ys (map (\<lambda>(e, l). (e, g l)) xs @ ys) =
     map (\<lambda>(e, l). (e, g l)) (xs @ ys)"
proof (induction ys arbitrary: xs)
  case Nil
  then show ?case by simp
next
  case (Cons p ys)
  obtain e l where p: "p = (e, l)" by (cases p)
  have fresh: "e \<notin> fst ` set (map (\<lambda>(e, l). (e, g l)) xs)"
    using Cons.prems by (auto simp: p image_iff)
  have step: "dict_set e (g l) (map (\<lambda>(e, l). (e, g l)) xs @ (e, l) # ys) =
      map (\<lambda>(e, l). (e, g l)) (xs @ [(e, l)]) @ ys"
    using dict_set_middle [OF fresh] by simp
  have "distinct (map fst ((xs @ [(e, l)]) @ ys))" using Cons.prems by (simp add: p)
  from Cons.IH [OF this] show ?case by (simp add: p step)
qed

lemma replace_values_fold:
  "distinct (map fst d) \<Longrightarrow>
   fold (\<lambda>(e, l) acc. dict_set e (g l) acc) d d = map (\<lambda>(e, l). (e, g l)) d"
  using replace_values_fold_gen [of "[]" d g] by simp

lemma mayor_duracion_por_estado_eq:
  "avistamientos_mayor_duracion_por_estado avs n =
     map (\<lambda>(e, l). (e, py_slice_to n (py_sort_key duracion True l))) (agrupa_por_estado avs)"
  unfolding avistamientos_mayor_duracion_por_estado_def Let_def
  by (rule replace_values_fold) (rule agrupa_por_estado_distinct)

lemma prefix_filter_take: "prefix (filter P (take n xs)) (filter P xs)"
proof -
  have "filter P xs = filter P (take n xs) @ filter P (drop n xs)"
    by (metis append_take_drop_id filter_append)
  then show ?thesis by (simp add: prefix_def)
qed

lemma sorted_wrt_take': "sorted_wrt R xs \<Longrightarrow> sorted_wrt R (take n xs)"
  by (metis append_take_drop_id sorted_wrt_append)

text \<open>
  Claim C6. For \<open>n \<ge> 0\<close>, every entry \<open>(e, xs)\<close> of the mapping returned by
  \<open>avistamientos_mayor_duracion_por_estado\<close> has at most \<open>n\<close> records, all of them records
  of the input of state \<open>e\<close>, in descending order of duration, and the records of any one
  duration are in the order the input has them (they are an initial part of the input's
  records of that state and duration). The list is the first \<open>n\<close> records of the state's
  records sorted stably by duration, greatest first.
\<close>

theorem top_n_por_estado:
  "0 \<le> n \<Longrightarrow> (e, xs) \<in> set (avistamientos_mayor_duracion_por_estado avs n) \<Longrightarrow>
     length xs \<le> nat n \<and>
     (\<forall>a\<in>set xs. a \<in> set avs \<and> estado a = e) \<and>
     sorted_wrt (\<lambda>a b. duracion a \<ge> duracion b) xs \<and>
     (\<forall>d. prefix (filter (\<lambda>a. duracion a = d) xs)
                 (filter (\<lambda>a. duracion a = d) (filter (\<lambda>a. estado a = e) avs))) \<and>
     xs = take (nat n) (py_sort_key duracion True (filter (\<lambda>a. estado a = e) avs))"
proof -
  assume n: "0 \<le> n" and mem: "(e, xs) \<in> set (avistamientos_mayor_duracion_por_estado avs n)"
  let ?g = "filter (\<lambda>a. estado a = e) avs"
  let ?s = "py_sort_key duracion True ?g"
  from mem obtain l where l: "(e, l) \<in> set (agrupa_por_estado avs)"
    and xs: "xs = py_slice_to n (py_sort_key duracion True l)"
    by (auto simp: mayor_duracion_por_estado_eq)
  from agrupa_por_estado_mem [OF l] have lg: "l = ?g" by simp
  have eq: "xs = take (nat n) ?s" using xs n by (simp add: lg py_slice_to_def)
  have len: "length xs \<le> nat n" by (simp add: eq)
  have mem': "\<forall>a\<in>set xs. a \<in> set avs \<and> estado a = e"
  proof
    fix a assume "a \<in> set xs"
    then have "a \<in> set ?s" unfolding eq by (rule in_set_takeD)
    then show "a \<in> set avs \<and> estado a = e" by (simp add: set_py_sort_key)
  qed
  have srt: "sorted_wrt (\<lambda>a b. duracion a \<ge> duracion b) xs"
    unfolding eq by (rule sorted_wrt_take' [OF py_sort_key_descending])
  have stab: "prefix (filter (\<lambda>a. duracion a = d) xs) (filter (\<lambda>a. duracion a = d) ?g)" for d
    using prefix_filter_take [of "\<lambda>a. duracion a = d" "nat n" ?s]
    by (simp add: eq py_sort_key_stable)
  show ?thesis using len mem' srt stab eq by blast
qed

text \<open>
  Records of durations 5, 5, 7, 5 and states \<open>[1]\<close>, \<open>[2]\<close>, \<open>[1]\<close>, \<open>[1]\<close>: with \<open>n = 2\<close>
  the state \<open>[1]\<close> keeps the record of duration 7 and the first of its records of duration 5.
\<close>

theorem top_n_por_estado_witness:
  "(0::int) \<le> 2 \<and>
   ([1], [ej_avistamiento (ej_fechahora 2020 1 3 0 0) [1] [] 7 [] 0,
          ej_avistamiento (ej_fechahora 2020 1 1 0 0) [1] [] 5 [] 0]) \<in>
     set (avistamientos_mayor_duracion_por_estado
       [ej_avistamiento (ej_fechahora 2020 1 1 0 0) [1] [] 5 [] 0,
        ej_avistamiento (ej_fechahora 2020 1 2 0 0) [2] [] 5 [] 0,
        ej_avistamiento (ej_fechahora 2020 1 3 0 0) [1] [] 7 [] 0,
        ej_avistamiento (ej_fechahora 2020 1 4 0 0) [1] [] 5 [] 0] 2) \<and>
   length [ej_avistamiento (ej_fechahora 2020 1 3 0 0) [1] [] 7 [] 0,
           ej_avistamiento (ej_fechahora 2020 1 1 0 0) [1] [] 5 [] 0] \<le> nat 2 \<and>
   sorted_wrt (\<lambda>a b. duracion a \<ge> duracion b)
     [ej_avistamiento (ej_fechahora 2020 1 3 0 0) [1] [] 7 [] 0,
      ej_avistamiento (ej_fechahora 2020 1 1 0 0) [1] [] 5 [] 0]"
proof -
  let ?L = "[ej_avistamiento (ej_fechahora 2020 1 1 0 0) [1] [] 5 [] 0,
        ej_avistamiento (ej_fechahora 2020 1 2 0 0) [2] [] 5 [] 0,
        ej_avistamiento (ej_fechahora 2020 1 3 0 0) [1] [] 7 [] 0,
        ej_avistamiento (ej_fechahora 2020 1 4 0 0) [1] [] 5 [] 0]"
  let ?xs = "[ej_avistamiento (ej_fechahora 2020 1 3 0 0) [1] [] 7 [] 0,
          ej_avistamiento (ej_fechahora 2020 1 1 0 0) [1] [] 5 [] 0]"
  have n: "(0::int) \<le> 2" by simp
  have mem: "([1], ?xs) \<in> set (avistamientos_mayor_duracion_por_estado ?L 2)"
    by (simp add: avistamientos_mayor_duracion_por_estado_def agrupa_por_estado_def
        py_slice_to_def py_sort_key_def ej_avistamiento_def)
  show ?thesis using n mem top_n_por_estado [OF n mem] by blast
qed

section \<open>Counting and percentages\<close>

lemma fold_defaultdict_keys:
  "fst ` set (fold (\<lambda>a d. defaultdict_modify dflt (key a) (g a) d) xs d0) =
     fst ` set d0 \<union> key ` set xs"
  by (induction xs arbitrary: d0) (auto simp: set_keys_defaultdict_modify)

lemma map_of_mem_distinct:
  "distinct (map fst d) \<Longrightarrow> (k, v) \<in> set d \<Longrightarrow> map_of d k = Some v"
  by simp

lemma sum_defaultdict_modify_count:
  "sum_list (map snd (defaultdict_modify 0 k (\<lambda>n. n + 1) d)) = sum_list (map snd d) + (1::int)"
  by (induction d) auto

lemma count_fold_sum:
  "sum_list (map snd (fold (\<lambda>x c. defaultdict_modify 0 x (\<lambda>n. n + 1) c) xs c0)) =
     sum_list (map snd c0) + int (length xs)"
  by (induction xs arbitrary: c0) (auto simp: sum_defaultdict_modify_count)

lemma count_fold_map_of:
  "map_of (fold (\<lambda>x c. defaultdict_modify 0 x (\<lambda>n. n + 1) c) xs c0) k =
     (case map_of c0 k of
        None \<Rightarrow> if k \<in> set xs then Some (int (length (filter (\<lambda>x. x = k) xs))) else None
      | Some m \<Rightarrow> Some (m + int (length (filter (\<lambda>x. x = k) xs))))"
  by (induction xs arbitrary: c0) (auto simp: map_of_defaultdict_modify split: option.splits)

lemma Counter_keys: "fst ` set (Counter xs) = set xs"
  using fold_defaultdict_keys [of 0 "\<lambda>x. x" "\<lambda>x n. n + 1" xs "[]"] by (simp add: Counter_def)

lemma Counter_distinct: "distinct (map fst (Counter xs))"
  using group_fold_distinct [of "[]" 0 "\<lambda>x. x" "\<lambda>x n. n + 1" xs] by (simp add: Counter_def)

lemma Counter_sum: "sum_list (map snd (Counter xs)) = int (length xs)"
  by (simp add: Counter_def count_fold_sum)

lemma Counter_map_of:
  "map_of (Counter xs) k =
     (if k \<in> set xs then Some (int (length (filter (\<lambda>x. x = k) xs))) else None)"
  by (simp add: Counter_def count_fold_map_of)

lemma Counter_mem:
  "(k, c) \<in> set (Counter xs) \<Longrightarrow> k \<in> set xs \<and> c = int (length (filter (\<lambda>x. x = k) xs))"
  using map_of_mem_distinct [OF Counter_distinct, of k c xs]
  by (auto simp: Counter_map_of split: if_splits)

lemma Counter_Nil_iff: "Counter xs = [] \<longleftrightarrow> xs = []"
  using Counter_keys [of xs] by (metis image_is_empty set_empty)

lemma fold_dict_set_fresh:
  "distinct (map fst items) \<Longrightarrow> fst ` set res \<inter> fst ` set items = {} \<Longrightarrow>
   fold (\<lambda>(k, v) r. dict_set k (h v) r) items res = res @ map (\<lambda>(k, v). (k, h v)) items"
proof (induction items arbitrary: res)
  case Nil
  then show ?case by simp
next
  case (Cons p items)
  obtain k v where p: "p = (k, v)" by (cases p)
  have fresh: "k \<notin> fst ` set res" using Cons.prems(2) by (auto simp: p)
  have d: "distinct (map fst items)" using Cons.prems(1) by simp
  have disj: "fst ` set (res @ [(k, h v)]) \<inter> fst ` set items = {}"
    using Cons.prems by (auto simp: p)
  show ?case
    using Cons.IH [OF d disj] by (simp add: p dict_set_fresh [OF fresh])
qed

lemma porc_loop_ok:
  "t \<noteq> 0 \<Longrightarrow>
   porc_loop t items res =
     Inr (fold (\<lambda>(f, c) r. dict_set f (real_of_int (100 * c) / real_of_int t) r) items res)"
  by (induction items arbitrary: res) (auto simp: py_truediv_def)

lemma porc_loop_distinct:
  assumes "t \<noteq> 0" "distinct (map fst items)"
  shows "porc_loop t items [] =
     Inr (map (\<lambda>(f, c). (f, real_of_int (100 * c) / real_of_int t)) items)"
  using fold_dict_set_fresh [of items "[]" "\<lambda>c. real_of_int (100 * c) / real_of_int t"] assms
  by (simp add: porc_loop_ok)

lemma sum_percentages:
  "sum_list (map snd (map (\<lambda>(f, c). (f, real_of_int (100 * c) / real_of_int t)) items)) =
     100 * real_of_int (sum_list (map snd items)) / real_of_int t"
  by (induction items) (auto simp: add_divide_distrib distrib_left)

lemma porc_avistamientos_por_forma_eq:
  "avs \<noteq> [] \<Longrightarrow>
   porc_avistamientos_por_forma avs =
     Inr (map (\<lambda>(f, c). (f, real_of_int (100 * c) / real (length avs)))
            (Counter (map forma avs)))"
  unfolding porc_avistamientos_por_forma_def Let_def
  using porc_loop_distinct [of "int (length avs)" "Counter (map forma avs)"]
  by (simp add: Counter_distinct)

lemma porc_avistamientos_por_forma_bis_eq:
  "filter (\<lambda>a. year (fechahora a) = y) avs \<noteq> [] \<Longrightarrow>
   porc_avistamientos_por_forma_bis avs y =
     Inr (map (\<lambda>(f, c). (f, real_of_int (100 * c) /
                 real (length (filter (\<lambda>a. year (fechahora a) = y) avs))))
            (Counter (map forma (filter (\<lambda>a. year (fechahora a) = y) avs))))"
  unfolding porc_avistamientos_por_forma_bis_def Let_def Counter_sum
  using porc_loop_distinct [of "int (length (filter (\<lambda>a. year (fechahora a) = y) avs))"
      "Counter (map forma (filter (\<lambda>a. year (fechahora a) = y) avs))"]
  by (simp add: Counter_distinct)

lemma percentages_sum_100:
  assumes "xs \<noteq> []"
  shows "sum_list (map snd (map (\<lambda>(f, c). (f, real_of_int (100 * c) / real (length xs)))
            (Counter (map g xs)))) = 100"
  using assms sum_percentages [of "int (length xs)" "Counter (map g xs)"]
  by (simp add: Counter_sum)

lemma percentage_entry:
  assumes "(f, p) \<in> set (map (\<lambda>(f, c). (f, real_of_int (100 * c) / real (length xs)))
            (Counter (map g xs)))"
  shows "f \<in> g ` set xs \<and> p = 100 * real (length (filter (\<lambda>a. g a = f) xs)) / real (length xs)"
proof -
  from assms obtain c where c: "(f, c) \<in> set (Counter (map g xs))"
    and p: "p = real_of_int (100 * c) / real (length xs)" by auto
  from Counter_mem [OF c] have "f \<in> g ` set xs"
    and "c = int (length (filter (\<lambda>x. x = f) (map g xs)))" by auto
  moreover have "length (filter (\<lambda>x. x = f) (map g xs)) = length (filter (\<lambda>a. g a = f) xs)"
    by (simp add: filter_map comp_def)
  ultimately show ?thesis using p by simp
qed

text \<open>
  Claim C7. When the list is not empty, \<open>porc_avistamientos_por_forma\<close> returns a mapping
  whose keys are the shapes of the list and whose values sum to 100, each value being
  100 times the number of records of the shape over the number of records. When the list
  has a record of the year, the variant with a year returns a mapping whose values sum
  to 100, each value being 100 times the number of records of the shape and of the year
  over the number of records of the year. (Exact arithmetic: the sum is exactly 100.)
\<close>

theorem porcentajes_sum_100:
  "(avs \<noteq> [] \<longrightarrow>
      (\<exists>m. porc_avistamientos_por_forma avs = Inr m \<and> sum_list (map snd m) = 100 \<and>
           fst ` set m = forma ` set avs \<and>
           (\<forall>f p. (f, p) \<in> set m \<longrightarrow>
              p = 100 * real (length (filter (\<lambda>a. forma a = f) avs)) / real (length avs)))) \<and>
   (filter (\<lambda>a. year (fechahora a) = y) avs \<noteq> [] \<longrightarrow>
      (\<exists>m. porc_avistamientos_por_forma_bis avs y = Inr m \<and> sum_list (map snd m) = 100 \<and>
           (\<forall>f p. (f, p) \<in> set m \<longrightarrow>
              p = 100 * real (length (filter (\<lambda>a. forma a = f \<and> year (fechahora a) = y) avs)) /
                  real (length (filter (\<lambda>a. year (fechahora a) = y) avs)))))"
proof -
  let ?sel = "filter (\<lambda>a. year (fechahora a) = y) avs"
  have g: "\<exists>m. porc_avistamientos_por_forma avs = Inr m \<and> sum_list (map snd m) = 100 \<and>
           fst ` set m = forma ` set avs \<and>
           (\<forall>f p. (f, p) \<in> set m \<longrightarrow>
              p = 100 * real (length (filter (\<lambda>a. forma a = f) avs)) / real (length avs))"
    if ne: "avs \<noteq> []"
  proof -
    let ?m = "map (\<lambda>(f, c). (f, real_of_int (100 * c) / real (length avs))) (Counter (map forma avs))"
    have 1: "porc_avistamientos_por_forma avs = Inr ?m"
      by (rule porc_avistamientos_por_forma_eq [OF ne])
    have 2: "sum_list (map snd ?m) = 100" by (rule percentages_sum_100 [OF ne])
    have "map fst ?m = map fst (Counter (map forma avs))" by (simp add: case_prod_unfold comp_def)
    then have "set (map fst ?m) = set (map fst (Counter (map forma avs)))" by simp
    then have 3: "fst ` set ?m = forma ` set avs"
      using Counter_keys [of "map forma avs"] by (simp only: set_map)
    have 4: "\<forall>f p. (f, p) \<in> set ?m \<longrightarrow>
              p = 100 * real (length (filter (\<lambda>a. forma a = f) avs)) / real (length avs)"
      using percentage_entry [of _ _ avs forma] by blast
    show ?thesis using 1 2 3 4 by blast
  qed
  have b: "\<exists>m. porc_avistamientos_por_forma_bis avs y = Inr m \<and> sum_list (map snd m) = 100 \<and>
           (\<forall>f p. (f, p) \<in> set m \<longrightarrow>
              p = 100 * real (length (filter (\<lambda>a. forma a = f \<and> year (fechahora a) = y) avs)) /
                  real (length ?sel))"
    if ne: "?sel \<noteq> []"
  proof -
    let ?m = "map (\<lambda>(f, c). (f, real_of_int (100 * c) / real (length ?sel))) (Counter (map forma ?sel))"
    have 1: "porc_avistamientos_por_forma_bis avs y = Inr ?m"
      by (rule porc_avistamientos_por_forma_bis_eq [OF ne])
    have 2: "sum_list (map snd ?m) = 100" by (rule percentages_sum_100 [OF ne])
    have flt: "filter (\<lambda>a. forma a = f) ?sel =
        filter (\<lambda>a. forma a = f \<and> year (fechahora a) = y) avs" for f
      by (simp add: conj_commute)
    have 4: "\<forall>f p. (f, p) \<in> set ?m \<longrightarrow>
              p = 100 * real (length (filter (\<lambda>a. forma a = f \<and> year (fechahora a) = y) avs)) /
                  real (length ?sel)"
      using percentage_entry [of _ _ ?sel forma] unfolding flt by blast
    show ?thesis using 1 2 4 by blast
  qed
  show ?thesis using g b by blast
qed

text \<open>
  Shapes \<open>[1]\<close>, \<open>[2]\<close>, \<open>[1]\<close>, \<open>[1]\<close> in the years 2020, 2021, 2020, 2021: 75 and 25 over
  all the records, 50 and 50 over those of 2021.
\<close>

theorem porcentajes_sum_100_witness:
  "[ej_avistamiento (ej_fechahora 2020 1 1 0 0) [] [1] 5 [] 0,
    ej_avistamiento (ej_fechahora 2021 1 2 0 0) [] [2] 5 [] 0,
    ej_avistamiento (ej_fechahora 2020 1 3 0 0) [] [1] 7 [] 0,
    ej_avistamiento (ej_fechahora 2021 1 4 0 0) [] [1] 5 [] 0] \<noteq> [] \<and>
   porc_avistamientos_por_forma
     [ej_avistamiento (ej_fechahora 2020 1 1 0 0) [] [1] 5 [] 0,
      ej_avistamiento (ej_fechahora 2021 1 2 0 0) [] [2] 5 [] 0,
      ej_avistamiento (ej_fechahora 2020 1 3 0 0) [] [1] 7 [] 0,
      ej_avistamiento (ej_fechahora 2021 1 4 0 0) [] [1] 5 [] 0] = Inr [([1], 75), ([2], 25)] \<and>
   sum_list (map snd [([1::nat], 75::real), ([2], 25)]) = 100 \<and>
   porc_avistamientos_por_forma_bis
     [ej_avistamiento (ej_fechahora 2020 1 1 0 0) [] [1] 5 [] 0,
      ej_avistamiento (ej_fechahora 2021 1 2 0 0) [] [2] 5 [] 0,
      ej_avistamiento (ej_fechahora 2020 1 3 0 0) [] [1] 7 [] 0,
      ej_avistamiento (ej_fechahora 2021 1 4 0 0) [] [1] 5 [] 0] 2021 = Inr [([2], 50), ([1], 50)]"
proof -
  let ?L = "[ej_avistamiento (ej_fechahora 2020 1 1 0 0) [] [1] 5 [] 0,
      ej_avistamiento (ej_fechahora 2021 1 2 0 0) [] [2] 5 [] 0,
      ej_avistamiento (ej_fechahora 2020 1 3 0 0) [] [1] 7 [] 0,
      ej_avistamiento (ej_fechahora 2021 1 4 0 0) [] [1] 5 [] 0]"
  have ev: "porc_avistamientos_por_forma ?L = Inr [([1], 75), ([2], 25)]"
    by (simp add: porc_avistamientos_por_forma_def Counter_def py_truediv_def ej_avistamiento_def)
  have evb: "porc_avistamientos_por_forma_bis ?L 2021 = Inr [([2], 50), ([1], 50)]"
    by (simp add: porc_avistamientos_por_forma_bis_def Counter_def py_truediv_def
        ej_avistamiento_def ej_fechahora_def)
  have "sum_list (map snd [([1::nat], 75::real), ([2], 25)]) = 100"
    using porcentajes_sum_100 [of ?L 2021] ev by simp
  then show ?thesis using ev evb by simp
qed

section \<open>Division by zero\<close>

lemma medias_loop_ok:
  "\<forall>p\<in>set items. snd p \<noteq> [] \<Longrightarrow>
   medias_loop items res =
     Inr (fold (\<lambda>(e, ls) r. dict_set e (real_of_int (sum_list ls) / real (length ls)) r) items res)"
  by (induction items arbitrary: res) (auto simp: py_truediv_def)

lemma longitudes_keys: "fst ` set (longitudes_comentarios_por_estado avs) = estado ` set avs"
  by (simp add: longitudes_comentarios_por_estado_def fold_defaultdict_keys)

lemma longitudes_distinct: "distinct (map fst (longitudes_comentarios_por_estado avs))"
  by (simp add: longitudes_comentarios_por_estado_def group_fold_distinct)

lemma longitudes_mem:
  "(e, ls) \<in> set (longitudes_comentarios_por_estado avs) \<Longrightarrow>
     ls = map (\<lambda>a. int (length (comentarios a))) (filter (\<lambda>a. estado a = e) avs) \<and> ls \<noteq> []"
  using group_fold_map_of [of estado "\<lambda>a. int (length (comentarios a))" avs "[]" e]
    map_of_mem_distinct [OF longitudes_distinct, of e ls avs]
  by (auto simp: longitudes_comentarios_por_estado_def split: if_splits)

lemma longitud_media_eq:
  "longitud_media_comentarios_por_estado avs =
     Inr (map (\<lambda>(e, ls). (e, real_of_int (sum_list ls) / real (length ls)))
            (longitudes_comentarios_por_estado avs))"
proof -
  have ne: "\<forall>p\<in>set (longitudes_comentarios_por_estado avs). snd p \<noteq> []"
    using longitudes_mem [of _ _ avs] by auto
  show ?thesis
    unfolding longitud_media_comentarios_por_estado_def medias_loop_ok [OF ne]
    using fold_dict_set_fresh [of "longitudes_comentarios_por_estado avs" "[]"
        "\<lambda>ls. real_of_int (sum_list ls) / real (length ls)"]
    by (simp add: longitudes_distinct)
qed

lemma porc_Nil: "porc_avistamientos_por_forma [] = Inr []"
  by (simp add: porc_avistamientos_por_forma_def Counter_def)

lemma porc_bis_Nil:
  "filter (\<lambda>a. year (fechahora a) = y) avs = [] \<Longrightarrow> porc_avistamientos_por_forma_bis avs y = Inr []"
  by (simp add: porc_avistamientos_por_forma_bis_def Counter_def)

text \<open>
  Claim C8, as the code has it. No input makes these computations divide by zero: the
  division is executed once for each counted shape, or grouped state, and its divisor is
  then at least 1. So both definitions of \<open>porc_avistamientos_por_forma\<close> and
  \<open>longitud_media_comentarios_por_estado\<close> return a mapping on every input; on the empty
  list, and for the variant with a year when no record is of that year, it is the empty
  mapping.
\<close>

theorem division_never_by_zero:
  "(\<exists>m. porc_avistamientos_por_forma avs = Inr m) \<and>
   (\<exists>m. porc_avistamientos_por_forma_bis avs y = Inr m) \<and>
   (\<exists>m. longitud_media_comentarios_por_estado avs = Inr m) \<and>
   (avs = [] \<longrightarrow> porc_avistamientos_por_forma avs = Inr [] \<and>
      longitud_media_comentarios_por_estado avs = Inr []) \<and>
   (filter (\<lambda>a. year (fechahora a) = y) avs = [] \<longrightarrow> porc_avistamientos_por_forma_bis avs y = Inr [])"
proof -
  have 1: "\<exists>m. porc_avistamientos_por_forma avs = Inr m"
    using porc_Nil porc_avistamientos_por_forma_eq [of avs] by (cases "avs = []") auto
  have 2: "\<exists>m. porc_avistamientos_por_forma_bis avs y = Inr m"
    using porc_bis_Nil [of y avs] porc_avistamientos_por_forma_bis_eq [of y avs]
    by (cases "filter (\<lambda>a. year (fechahora a) = y) avs = []") auto
  have 3: "\<exists>m. longitud_media_comentarios_por_estado avs = Inr m"
    by (simp add: longitud_media_eq)
  have 4: "avs = [] \<longrightarrow> porc_avistamientos_por_forma avs = Inr [] \<and>
      longitud_media_comentarios_por_estado avs = Inr []"
    by (simp add: porc_Nil longitud_media_comentarios_por_estado_def
        longitudes_comentarios_por_estado_def)
  have 5: "filter (\<lambda>a. year (fechahora a) = y) avs = [] \<longrightarrow>
      porc_avistamientos_por_forma_bis avs y = Inr []"
    by (simp add: porc_bis_Nil)
  show ?thesis using 1 2 3 4 5 by blast
qed

theorem division_never_by_zero_witness:
  "porc_avistamientos_por_forma [] = Inr [] \<and>
   longitud_media_comentarios_por_estado [] = Inr [] \<and>
   porc_avistamientos_por_forma_bis
     [ej_avistamiento (ej_fechahora 2020 1 1 0 0) [] [1] 5 [] 0] 2021 = Inr [] \<and>
   porc_avistamientos_por_forma
     [ej_avistamiento (ej_fechahora 2020 1 1 0 0) [] [1] 5 [] 0] = Inr [([1], 100)]"
proof -
  have a: "porc_avistamientos_por_forma [] = Inr [] \<and>
      longitud_media_comentarios_por_estado [] = Inr []"
    using division_never_by_zero [of "[]" 0] by simp
  have b: "porc_avistamientos_por_forma_bis
     [ej_avistamiento (ej_fechahora 2020 1 1 0 0) [] [1] 5 [] 0] 2021 = Inr []"
    using division_never_by_zero [of "[ej_avistamiento (ej_fechahora 2020 1 1 0 0) [] [1] 5 [] 0]" 2021]
    by (simp add: ej_avistamiento_def ej_fechahora_def)
  have c: "porc_avistamientos_por_forma
     [ej_avistamiento (ej_fechahora 2020 1 1 0 0) [] [1] 5 [] 0] = Inr [([1], 100)]"
    by (simp add: porc_avistamientos_por_forma_def Counter_def py_truediv_def ej_avistamiento_def)
  show ?thesis using a b c by blast
qed

text \<open>
  Claim C8, as stated, fails: on the empty list the operations report nothing
  "undefined"; each returns the ordinary empty mapping, the loop that divides not being
  entered.
\<close>

theorem division_guard_counterexample:
  "porc_avistamientos_por_forma [] = Inr [] \<and>
   porc_avistamientos_por_forma_bis [] 2020 = Inr [] \<and>
   longitud_media_comentarios_por_estado [] = Inr []"
  by (simp add: porc_avistamientos_por_forma_def porc_avistamientos_por_forma_bis_def Counter_def
      longitud_media_comentarios_por_estado_def longitudes_comentarios_por_estado_def)

section \<open>Key sets of the groupings\<close>

lemma ensure_then_modify:
  "dict_modify k f (if k \<notin> fst ` set d then dict_set k dflt d else d) =
     defaultdict_modify dflt k f d"
proof (induction d)
  case Nil
  then show ?case by simp
next
  case (Cons p d)
  obtain k' v where p: "p = (k', v)" by (cases p)
  show ?case
  proof (cases "k' = k")
    case True
    then show ?thesis by (simp add: p)
  next
    case False
    then show ?thesis using Cons.IH by (simp add: p split: if_splits)
  qed
qed

lemma avistamientos_por_fecha_eq2: "avistamientos_por_fecha avs = avistamientos_por_fecha2 avs"
  by (simp add: avistamientos_por_fecha_def avistamientos_por_fecha2_def Let_def ensure_then_modify)

lemma numero_avistamientos_por_anyo_eq3:
  "numero_avistamientos_por_anyo avs = numero_avistamientos_por_anyo3 avs"
  by (simp add: numero_avistamientos_por_anyo_def numero_avistamientos_por_anyo3_def Let_def
      ensure_then_modify)

lemma numero_avistamientos_por_anyo3_eq2:
  "numero_avistamientos_por_anyo3 avs = numero_avistamientos_por_anyo2 avs"
  by (simp add: numero_avistamientos_por_anyo3_def numero_avistamientos_por_anyo2_def Counter_def
      fold_map comp_def)

lemma set_fold_map_of:
  "map_of (fold (\<lambda>a d. defaultdict_modify {} (key a) (insert a) d) xs d0) e =
     (case map_of d0 e of
        None \<Rightarrow> if e \<in> key ` set xs then Some {a \<in> set xs. key a = e} else None
      | Some S \<Rightarrow> Some (S \<union> {a \<in> set xs. key a = e}))"
proof (induction xs arbitrary: d0)
  case Nil
  then show ?case by (simp split: option.splits)
next
  case (Cons x xs)
  have s1: "insert x {a. (a = x \<or> a \<in> set xs) \<and> key a = key x} =
      {a. (a = x \<or> a \<in> set xs) \<and> key a = key x}" by auto
  have s2: "{a \<in> set xs. key a = e} = {a. (a = x \<or> a \<in> set xs) \<and> key a = e}"
    if "key x \<noteq> e" for e using that by auto
  show ?case
    by (auto simp: Cons.IH map_of_defaultdict_modify s2 split: option.splits)
qed

lemma avistamientos_por_fecha_mem:
  "(k, S) \<in> set (avistamientos_por_fecha avs) \<Longrightarrow>
     S = {a \<in> set avs. date_of (fechahora a) = k} \<and> S \<noteq> {}"
proof -
  assume mem: "(k, S) \<in> set (avistamientos_por_fecha avs)"
  have d: "distinct (map fst (avistamientos_por_fecha avs))"
    by (simp add: avistamientos_por_fecha_eq2 avistamientos_por_fecha2_def group_fold_distinct)
  have "map_of (avistamientos_por_fecha avs) k = Some S"
    by (rule map_of_mem_distinct [OF d mem])
  then show ?thesis
    using set_fold_map_of [of "\<lambda>a. date_of (fechahora a)" avs "[]" k]
    by (auto simp: avistamientos_por_fecha_eq2 avistamientos_por_fecha2_def split: if_splits)
qed

lemma replace_values_fold_gen2:
  "distinct (map fst (xs @ ys)) \<Longrightarrow>
   fold (\<lambda>(e, l) d. dict_set e (h l) d) ys
     (map (\<lambda>(e, l). (e, h l)) xs @ map (\<lambda>(e, l). (e, j l)) ys) =
     map (\<lambda>(e, l). (e, h l)) (xs @ ys)"
proof (induction ys arbitrary: xs)
  case Nil
  then show ?case by simp
next
  case (Cons p ys)
  obtain e l where p: "p = (e, l)" by (cases p)
  have fresh: "e \<notin> fst ` set (map (\<lambda>(e, l). (e, h l)) xs)"
    using Cons.prems by (auto simp: p image_iff)
  have step: "dict_set e (h l) (map (\<lambda>(e, l). (e, h l)) xs @ (e, j l) # map (\<lambda>(e, l). (e, j l)) ys) =
      map (\<lambda>(e, l). (e, h l)) (xs @ [(e, l)]) @ map (\<lambda>(e, l). (e, j l)) ys"
    using dict_set_middle [OF fresh] by simp
  have "distinct (map fst ((xs @ [(e, l)]) @ ys))" using Cons.prems by (simp add: p)
  from Cons.IH [OF this] show ?case by (simp add: p step)
qed

lemma reciente_loop_ok:
  "\<forall>p\<in>set items. snd p \<noteq> [] \<Longrightarrow>
   reciente_loop items d =
     Inr (fold (\<lambda>(e, l) d. dict_set e
            (Fecha (fechahora (max_key_loop (\<lambda>a. dt_key (fechahora a)) (hd l) (tl l)))) d) items d)"
  by (induction items arbitrary: d) (auto simp: py_max_key_def split: list.splits)

lemma avistamiento_mas_reciente_por_estado_eq:
  "avistamiento_mas_reciente_por_estado avs =
     Inr (map (\<lambda>(e, l). (e, Fecha (fechahora (max_key_loop (\<lambda>a. dt_key (fechahora a)) (hd l) (tl l)))))
            (agrupa_por_estado avs))"
proof -
  have ne: "\<forall>p\<in>set (agrupa_por_estado avs). snd p \<noteq> []"
    using agrupa_por_estado_mem [of _ _ avs] by auto
  show ?thesis
    unfolding avistamiento_mas_reciente_por_estado_def Let_def reciente_loop_ok [OF ne]
    using replace_values_fold_gen2 [of "[]" "agrupa_por_estado avs"
        "\<lambda>l. Fecha (fechahora (max_key_loop (\<lambda>a. dt_key (fechahora a)) (hd l) (tl l)))" Grupo]
    by (simp add: agrupa_por_estado_distinct)
qed

lemma max_key_loop_hd_tl:
  "l \<noteq> [] \<Longrightarrow> max_key_loop key (hd l) (tl l) \<in> set l \<and>
     (\<forall>x\<in>set l. key x \<le> key (max_key_loop key (hd l) (tl l)))"
  using max_key_loop_mem [of key "hd l" "tl l"] max_key_loop_ge [of _ "hd l" "tl l" key]
  by (cases l) auto

lemma keys_map_values: "map fst (map (\<lambda>(e, l). (e, g l)) d) = map fst d"
  by (simp add: case_prod_unfold comp_def)

lemma set_keys_map_values: "fst ` set (map (\<lambda>(e, l). (e, g l)) d) = fst ` set d"
  using keys_map_values [of g d] by (metis set_map)

text \<open>
  Claim C10, as the code has it. The mappings returned by \<open>avistamientos_por_fecha\<close>,
  \<open>numero_avistamientos_por_a\<ntilde>o\<close>, \<open>longitud_media_comentarios_por_estado\<close>,
  \<open>avistamientos_mayor_duracion_por_estado\<close> and \<open>avistamiento_mas_reciente_por_estado\<close>
  have each key once, and their keys are exactly the dates, the years and the states
  that occur in the input. A date maps to the non-empty set of the records of that date, a
  year to the number of its records, which is at least 1, and a state to the timestamp of
  one of its records, the greatest of the state. For \<open>n \<ge> 1\<close> no state maps to an empty
  list of records of greatest duration. On the empty list each of them is the empty mapping.
\<close>

theorem grouping_key_sets:
  "distinct (map fst (avistamientos_por_fecha avs)) \<and>
   fst ` set (avistamientos_por_fecha avs) = (\<lambda>a. date_of (fechahora a)) ` set avs \<and>
   (\<forall>k S. (k, S) \<in> set (avistamientos_por_fecha avs) \<longrightarrow>
      S = {a \<in> set avs. date_of (fechahora a) = k} \<and> S \<noteq> {}) \<and>
   distinct (map fst (numero_avistamientos_por_anyo avs)) \<and>
   fst ` set (numero_avistamientos_por_anyo avs) = (\<lambda>a. year (fechahora a)) ` set avs \<and>
   (\<forall>k c. (k, c) \<in> set (numero_avistamientos_por_anyo avs) \<longrightarrow>
      c = int (length (filter (\<lambda>a. year (fechahora a) = k) avs)) \<and> c \<ge> 1) \<and>
   (\<exists>m. longitud_media_comentarios_por_estado avs = Inr m \<and> distinct (map fst m) \<and>
      fst ` set m = estado ` set avs) \<and>
   distinct (map fst (avistamientos_mayor_duracion_por_estado avs n)) \<and>
   fst ` set (avistamientos_mayor_duracion_por_estado avs n) = estado ` set avs \<and>
   (n \<ge> 1 \<longrightarrow> (\<forall>e xs. (e, xs) \<in> set (avistamientos_mayor_duracion_por_estado avs n) \<longrightarrow> xs \<noteq> [])) \<and>
   (\<exists>m. avistamiento_mas_reciente_por_estado avs = Inr m \<and> distinct (map fst m) \<and>
      fst ` set m = estado ` set avs \<and>
      (\<forall>e v. (e, v) \<in> set m \<longrightarrow>
         (\<exists>a\<in>set avs. estado a = e \<and> v = Fecha (fechahora a) \<and>
            (\<forall>b\<in>set avs. estado b = e \<longrightarrow> dt_key (fechahora b) \<le> dt_key (fechahora a))))) \<and>
   (avs = [] \<longrightarrow>
      avistamientos_por_fecha avs = [] \<and> numero_avistamientos_por_anyo avs = [] \<and>
      longitud_media_comentarios_por_estado avs = Inr [] \<and>
      avistamientos_mayor_duracion_por_estado avs n = [] \<and>
      avistamiento_mas_reciente_por_estado avs = Inr [])"
proof -
  have f1: "distinct (map fst (avistamientos_por_fecha avs))"
    by (simp add: avistamientos_por_fecha_eq2 avistamientos_por_fecha2_def group_fold_distinct)
  have f2: "fst ` set (avistamientos_por_fecha avs) = (\<lambda>a. date_of (fechahora a)) ` set avs"
    by (simp add: avistamientos_por_fecha_eq2 avistamientos_por_fecha2_def fold_defaultdict_keys)
  have f3: "\<forall>k S. (k, S) \<in> set (avistamientos_por_fecha avs) \<longrightarrow>
      S = {a \<in> set avs. date_of (fechahora a) = k} \<and> S \<noteq> {}"
    using avistamientos_por_fecha_mem by blast
  have y0: "numero_avistamientos_por_anyo avs = Counter (map (\<lambda>a. year (fechahora a)) avs)"
    by (simp add: numero_avistamientos_por_anyo_eq3 numero_avistamientos_por_anyo3_eq2
        numero_avistamientos_por_anyo2_def)
  have y1: "distinct (map fst (numero_avistamientos_por_anyo avs))"
    by (simp add: y0 Counter_distinct)
  have y2: "fst ` set (numero_avistamientos_por_anyo avs) = (\<lambda>a. year (fechahora a)) ` set avs"
    by (simp add: y0 Counter_keys)
  have y3: "\<forall>k c. (k, c) \<in> set (numero_avistamientos_por_anyo avs) \<longrightarrow>
      c = int (length (filter (\<lambda>a. year (fechahora a) = k) avs)) \<and> c \<ge> 1"
  proof (intro allI impI)
    fix k c assume "(k, c) \<in> set (numero_avistamientos_por_anyo avs)"
    then have m: "(k, c) \<in> set (Counter (map (\<lambda>a. year (fechahora a)) avs))" by (simp add: y0)
    from Counter_mem [OF m] have k: "k \<in> (\<lambda>a. year (fechahora a)) ` set avs"
      and c: "c = int (length (filter (\<lambda>x. x = k) (map (\<lambda>a. year (fechahora a)) avs)))" by auto
    have l: "length (filter (\<lambda>x. x = k) (map (\<lambda>a. year (fechahora a)) avs)) =
        length (filter (\<lambda>a. year (fechahora a) = k) avs)"
      by (simp add: filter_map comp_def)
    from k have "filter (\<lambda>a. year (fechahora a) = k) avs \<noteq> []"
      by (auto simp: filter_empty_conv)
    then have "length (filter (\<lambda>a. year (fechahora a) = k) avs) \<ge> 1"
      by (simp add: Suc_le_eq)
    then show "c = int (length (filter (\<lambda>a. year (fechahora a) = k) avs)) \<and> c \<ge> 1"
      using c l by simp
  qed
  have l1: "\<exists>m. longitud_media_comentarios_por_estado avs = Inr m \<and> distinct (map fst m) \<and>
      fst ` set m = estado ` set avs"
  proof -
    let ?m = "map (\<lambda>(e, ls). (e, real_of_int (sum_list ls) / real (length ls)))
                (longitudes_comentarios_por_estado avs)"
    have a: "longitud_media_comentarios_por_estado avs = Inr ?m" by (rule longitud_media_eq)
    have b: "distinct (map fst ?m)" unfolding keys_map_values by (rule longitudes_distinct)
    have c: "fst ` set ?m = estado ` set avs" unfolding set_keys_map_values by (rule longitudes_keys)
    show ?thesis using a b c by blast
  qed
  have t1: "distinct (map fst (avistamientos_mayor_duracion_por_estado avs n))"
    unfolding mayor_duracion_por_estado_eq keys_map_values by (rule agrupa_por_estado_distinct)
  have t2: "fst ` set (avistamientos_mayor_duracion_por_estado avs n) = estado ` set avs"
    unfolding mayor_duracion_por_estado_eq set_keys_map_values by (rule agrupa_por_estado_keys)
  have t3: "n \<ge> 1 \<longrightarrow>
      (\<forall>e xs. (e, xs) \<in> set (avistamientos_mayor_duracion_por_estado avs n) \<longrightarrow> xs \<noteq> [])"
  proof (intro allI impI)
    fix e xs assume n: "1 \<le> n" and mem: "(e, xs) \<in> set (avistamientos_mayor_duracion_por_estado avs n)"
    from mem obtain l where l: "(e, l) \<in> set (agrupa_por_estado avs)"
      and xs: "xs = py_slice_to n (py_sort_key duracion True l)"
      by (auto simp: mayor_duracion_por_estado_eq)
    from agrupa_por_estado_mem [OF l] have "l \<noteq> []" by blast
    then have "py_sort_key duracion True l \<noteq> []"
      using length_py_sort_key [of duracion True l] by (metis length_0_conv)
    then show "xs \<noteq> []" using n by (simp add: xs py_slice_to_def)
  qed
  have r1: "\<exists>m. avistamiento_mas_reciente_por_estado avs = Inr m \<and> distinct (map fst m) \<and>
      fst ` set m = estado ` set avs \<and>
      (\<forall>e v. (e, v) \<in> set m \<longrightarrow>
         (\<exists>a\<in>set avs. estado a = e \<and> v = Fecha (fechahora a) \<and>
            (\<forall>b\<in>set avs. estado b = e \<longrightarrow> dt_key (fechahora b) \<le> dt_key (fechahora a))))"
  proof -
    let ?mx = "\<lambda>l. max_key_loop (\<lambda>a. dt_key (fechahora a)) (hd l) (tl l)"
    let ?m = "map (\<lambda>(e, l). (e, Fecha (fechahora (?mx l)))) (agrupa_por_estado avs)"
    have a: "avistamiento_mas_reciente_por_estado avs = Inr ?m"
      by (rule avistamiento_mas_reciente_por_estado_eq)
    have b: "distinct (map fst ?m)" unfolding keys_map_values by (rule agrupa_por_estado_distinct)
    have c: "fst ` set ?m = estado ` set avs"
      unfolding set_keys_map_values by (rule agrupa_por_estado_keys)
    have d: "\<exists>a\<in>set avs. estado a = e \<and> v = Fecha (fechahora a) \<and>
            (\<forall>b\<in>set avs. estado b = e \<longrightarrow> dt_key (fechahora b) \<le> dt_key (fechahora a))"
      if "(e, v) \<in> set ?m" for e v
    proof -
      from that obtain l where l: "(e, l) \<in> set (agrupa_por_estado avs)"
        and v: "v = Fecha (fechahora (?mx l))" by auto
      from agrupa_por_estado_mem [OF l] have lg: "l = filter (\<lambda>a. estado a = e) avs" and ne: "l \<noteq> []"
        by blast+
      from max_key_loop_hd_tl [OF ne, of "\<lambda>a. dt_key (fechahora a)"]
      have in_l: "?mx l \<in> set l"
        and ge: "\<forall>x\<in>set l. dt_key (fechahora x) \<le> dt_key (fechahora (?mx l))" by blast+
      from in_l have "?mx l \<in> set avs" "estado (?mx l) = e" by (simp_all add: lg)
      moreover from ge have "\<forall>b\<in>set avs. estado b = e \<longrightarrow>
          dt_key (fechahora b) \<le> dt_key (fechahora (?mx l))" by (simp add: lg)
      ultimately show ?thesis using v by blast
    qed
    show ?thesis using a b c d by blast
  qed
  have e1: "avs = [] \<longrightarrow>
      avistamientos_por_fecha avs = [] \<and> numero_avistamientos_por_anyo avs = [] \<and>
      longitud_media_comentarios_por_estado avs = Inr [] \<and>
      avistamientos_mayor_duracion_por_estado avs n = [] \<and>
      avistamiento_mas_reciente_por_estado avs = Inr []"
    by (simp add: avistamientos_por_fecha_def numero_avistamientos_por_anyo_def
        longitud_media_comentarios_por_estado_def longitudes_comentarios_por_estado_def
        avistamientos_mayor_duracion_por_estado_def agrupa_por_estado_def
        avistamiento_mas_reciente_por_estado_def)
  show ?thesis using f1 f2 f3 y1 y2 y3 l1 t1 t2 t3 r1 e1 by blast
qed

theorem grouping_key_sets_witness:
  "(1::int) \<le> 1 \<and>
   avistamientos_mayor_duracion_por_estado
     [ej_avistamiento (ej_fechahora 2020 1 1 0 0) [1] [] 5 [] 0,
      ej_avistamiento (ej_fechahora 2021 1 2 0 0) [2] [] 5 [] 0,
      ej_avistamiento (ej_fechahora 2020 1 3 0 0) [1] [] 7 [] 0] 1 =
     [([1], [ej_avistamiento (ej_fechahora 2020 1 3 0 0) [1] [] 7 [] 0]),
      ([2], [ej_avistamiento (ej_fechahora 2021 1 2 0 0) [2] [] 5 [] 0])] \<and>
   fst ` set (avistamientos_mayor_duracion_por_estado
     [ej_avistamiento (ej_fechahora 2020 1 1 0 0) [1] [] 5 [] 0,
      ej_avistamiento (ej_fechahora 2021 1 2 0 0) [2] [] 5 [] 0,
      ej_avistamiento (ej_fechahora 2020 1 3 0 0) [1] [] 7 [] 0] 1) = {[1], [2]} \<and>
   numero_avistamientos_por_anyo
     [ej_avistamiento (ej_fechahora 2020 1 1 0 0) [1] [] 5 [] 0,
      ej_avistamiento (ej_fechahora 2021 1 2 0 0) [2] [] 5 [] 0,
      ej_avistamiento (ej_fechahora 2020 1 3 0 0) [1] [] 7 [] 0] = [(2020, 2), (2021, 1)] \<and>
   avistamiento_mas_reciente_por_estado
     [ej_avistamiento (ej_fechahora 2020 1 1 0 0) [1] [] 5 [] 0,
      ej_avistamiento (ej_fechahora 2021 1 2 0 0) [2] [] 5 [] 0,
      ej_avistamiento (ej_fechahora 2020 1 3 0 0) [1] [] 7 [] 0] =
     Inr [([1], Fecha (ej_fechahora 2020 1 3 0 0)), ([2], Fecha (ej_fechahora 2021 1 2 0 0))] \<and>
   avistamientos_por_fecha [] = [] \<and>
   avistamiento_mas_reciente_por_estado [] = Inr []"
proof -
  let ?L = "[ej_avistamiento (ej_fechahora 2020 1 1 0 0) [1] [] 5 [] 0,
      ej_avistamiento (ej_fechahora 2021 1 2 0 0) [2] [] 5 [] 0,
      ej_avistamiento (ej_fechahora 2020 1 3 0 0) [1] [] 7 [] 0]"
  have t: "avistamientos_mayor_duracion_por_estado ?L 1 =
     [([1], [ej_avistamiento (ej_fechahora 2020 1 3 0 0) [1] [] 7 [] 0]),
      ([2], [ej_avistamiento (ej_fechahora 2021 1 2 0 0) [2] [] 5 [] 0])]"
    by (simp add: avistamientos_mayor_duracion_por_estado_def agrupa_por_estado_def
        py_slice_to_def py_sort_key_def ej_avistamiento_def)
  have "fst ` set (avistamientos_mayor_duracion_por_estado ?L 1) = estado ` set ?L"
    by (rule grouping_key_sets [of ?L 1, THEN conjunct2, THEN conjunct2, THEN conjunct2, THEN conjunct2, THEN conjunct2, THEN conjunct2, THEN conjunct2, THEN conjunct2, THEN conjunct1])
  moreover have "estado ` set ?L = {[1], [2]}"
    by (auto simp: ej_avistamiento_def)
  ultimately have k: "fst ` set (avistamientos_mayor_duracion_por_estado ?L 1) = {[1], [2]}"
    by (rule trans)
  have y: "numero_avistamientos_por_anyo ?L = [(2020, 2), (2021, 1)]"
    by (simp add: numero_avistamientos_por_anyo_def ej_avistamiento_def ej_fechahora_def)
  have r: "avistamiento_mas_reciente_por_estado ?L =
     Inr [([1], Fecha (ej_fechahora 2020 1 3 0 0)), ([2], Fecha (ej_fechahora 2021 1 2 0 0))]"
    by (simp add: avistamiento_mas_reciente_por_estado_def agrupa_por_estado_def py_max_key_def
        dt_key_def ej_avistamiento_def ej_fechahora_def less_prod_def)
  have e: "avistamientos_por_fecha [] = [] \<and> avistamiento_mas_reciente_por_estado [] = Inr []"
    using grouping_key_sets [of "[]" 1, THEN conjunct2, THEN conjunct2, THEN conjunct2, THEN conjunct2, THEN conjunct2, THEN conjunct2, THEN conjunct2, THEN conjunct2, THEN conjunct2, THEN conjunct2, THEN conjunct2] by simp
  show ?thesis using t k y r e by (intro conjI) simp_all
qed

text \<open>
  Claim C10, as stated, fails for the records of greatest duration per state: with
  \<open>n = 0\<close> the state of the input is a key, and it maps to the empty list.
\<close>

theorem grouping_empty_group_counterexample:
  "avistamientos_mayor_duracion_por_estado
     [ej_avistamiento (ej_fechahora 2020 1 1 0 0) [1] [] 5 [] 0] 0 = [([1], [])]"
  by (simp add: avistamientos_mayor_duracion_por_estado_def agrupa_por_estado_def
      py_slice_to_def ej_avistamiento_def)

section \<open>The input list is not written\<close>

text \<open>
  A loop over the list at \<open>r\<close> whose body keeps an invariant under which that list is
  \<open>xs\<close> returns, and runs the body on the elements of \<open>xs\<close> in order.
\<close>

lemma for_in_fold:
  assumes step: "\<And>a st. I st \<Longrightarrow> I (body a st)"
    and rd: "\<And>st. I st \<Longrightarrow> fst st ! r = xs"
  shows "I st \<Longrightarrow> for_in r body i st = Some (fold body (drop i xs) st)"
proof (induction "length xs - i" arbitrary: i st)
  case 0
  then have "\<not> i < length (fst st ! r)" by (simp add: rd)
  then show ?case using 0 by (subst for_in.simps) simp
next
  case (Suc n)
  then have lt: "i < length xs" by simp
  have I': "I (body (xs ! i) st)" by (rule step [OF Suc.prems])
  have n: "n = length xs - Suc i" using Suc.hyps(2) by simp
  have "for_in r body i st = for_in r body (Suc i) (body (xs ! i) st)"
    using lt by (subst for_in.simps) (simp add: rd [OF Suc.prems])
  also have "\<dots> = Some (fold body (drop (Suc i) xs) (body (xs ! i) st))"
    by (rule Suc.hyps(1) [OF n I'])
  also have "\<dots> = Some (fold body (drop i xs) st)"
    using lt by (simp add: Cons_nth_drop_Suc [symmetric])
  finally show ?case .
qed

lemma fold_invariant:
  assumes "\<And>a st. I st \<Longrightarrow> I (body a st)"
  shows "I st \<Longrightarrow> I (fold body xs st)"
  using assms by (induction xs arbitrary: st) auto

lemma fold_solo_local: "fold (solo_local f) xs (s, l) = (s, fold f xs l)"
  by (induction xs arbitrary: l) (auto simp: solo_local_def)

lemma for_in_solo_local:
  "for_in r (solo_local f) 0 (s, l) = Some (s, fold f (s ! r) l)"
proof -
  have "for_in r (solo_local f) 0 (s, l) = Some (fold (solo_local f) (drop 0 (s ! r)) (s, l))"
    by (rule for_in_fold [where I = "\<lambda>st. fst st = s"]) (simp_all add: solo_local_def)
  then show ?thesis by (simp add: fold_solo_local)
qed

lemma fold_append_new:
  "fold (solo_store (\<lambda>a s. if P a then list_append (length s0) a s else s)) xs (s0 @ [acc], u) =
     (s0 @ [acc @ filter P xs], u)"
  by (induction xs arbitrary: acc) (auto simp: solo_store_def list_append_def)

lemma for_in_append_new:
  assumes "r < length s0"
  shows "for_in r (solo_store (\<lambda>a s. if P a then list_append (length s0) a s else s)) 0 (s0 @ [[]], u) =
     Some (s0 @ [filter P (s0 ! r)], u)"
proof -
  let ?body = "solo_store (\<lambda>a s. if P a then list_append (length s0) a s else s)"
  have "for_in r ?body 0 (s0 @ [[]], u) = Some (fold ?body (drop 0 (s0 ! r)) (s0 @ [[]], u))"
  proof (rule for_in_fold [where I = "\<lambda>st. \<exists>acc. fst st = s0 @ [acc]"])
    show "\<exists>acc. fst (?body a st) = s0 @ [acc]" if "\<exists>acc. fst st = s0 @ [acc]" for a st
      using that by (auto simp: solo_store_def list_append_def)
    show "fst st ! r = s0 ! r" if "\<exists>acc. fst st = s0 @ [acc]" for st
      using that assms by (auto simp: nth_append)
    show "\<exists>acc. fst (s0 @ [[]], u) = s0 @ [acc]" by simp
  qed
  then show ?thesis by (simp add: fold_append_new)
qed

subsection \<open>Outcomes that leave the store as it was\<close>

lemma unchanged_same: "unchanged s r (Some (s, res))"
  by (simp add: unchanged_def)

lemma unchanged_extended: "r < length s \<Longrightarrow> unchanged s r (Some (s @ t, res))"
  by (simp add: unchanged_def nth_append)

lemma unchanged_takeI:
  "r < length s \<Longrightarrow> length s \<le> length s' \<Longrightarrow> take (length s) s' = s \<Longrightarrow>
   unchanged s r (Some (s', res))"
  unfolding unchanged_def by (metis nth_take)

subsection \<open>The operations on the store compute what the operations on lists compute\<close>

lemma numero_avistamientos_fecha_eq:
  "numero_avistamientos_fecha s r fecha =
     Some (s, int (length (filter (\<lambda>a. date_of (fechahora a) = fecha) (s ! r))))"
proof -
  have "fold (\<lambda>a c. if P a then c + 1 else c) xs c0 = c0 + int (length (filter P xs))"
    for P :: "Avistamiento \<Rightarrow> bool" and xs and c0 :: int
    by (induction xs arbitrary: c0) auto
  then show ?thesis by (simp add: numero_avistamientos_fecha_def for_in_solo_local)
qed

lemma avistamientos_cercanos_ubicacion_st_eq:
  "avistamientos_cercanos_ubicacion_st distancia s r u radio =
     Some (s, avistamientos_cercanos_ubicacion distancia (s ! r) u radio)"
proof -
  have "fold (\<lambda>a res. if distancia (ubicacion a) u < radio then insert a res else res) xs res =
      cercanos_loop distancia u radio xs res" for xs res
    by (induction xs arbitrary: res) auto
  then show ?thesis
    by (simp add: avistamientos_cercanos_ubicacion_st_def for_in_solo_local
        avistamientos_cercanos_ubicacion_def)
qed

lemma avistamiento_cercano_mayor_duracion_st_eq:
  "avistamiento_cercano_mayor_duracion_st distancia s r c radio =
     Some (s, avistamiento_cercano_mayor_duracion distancia (s ! r) c radio)"
  by (simp add: avistamiento_cercano_mayor_duracion_st_def avistamientos_cercanos_ubicacion_st_eq
      avistamiento_cercano_mayor_duracion_def Let_def)

lemma avistamiento_mayor_duracion_st_eq:
  "r < length s \<Longrightarrow>
   avistamiento_mayor_duracion_st s r f =
     Some (s @ [filter (\<lambda>a. forma a = f) (s ! r)], avistamiento_mayor_duracion (s ! r) f)"
  by (simp add: avistamiento_mayor_duracion_st_def new_list_def for_in_append_new
      avistamiento_mayor_duracion_def fold_append_filter)

lemma comentario_mas_largo_st_eq:
  "r < length s \<Longrightarrow>
   comentario_mas_largo_st lower s r anyo palabra =
     Some (s @ [filter (\<lambda>a. year (fechahora a) = anyo \<and>
                            py_in (lower palabra) (lower (comentarios a))) (s ! r)],
           comentario_mas_largo lower (s ! r) anyo palabra)"
  by (simp add: comentario_mas_largo_st_def new_list_def for_in_append_new
      comentario_mas_largo_def fold_append_filter)

lemma avistamientos_fechas_st_eq:
  "r < length s \<Longrightarrow>
   avistamientos_fechas_st s r fi ff = Some (s @ [avistamientos_fechas (s ! r) fi ff], length s)"
  by (simp add: avistamientos_fechas_st_def new_list_def for_in_append_new list_sort_def
      avistamientos_fechas_def fold_append_filter)

lemma media_dias_entre_avistamientos_st_eq:
  "r < length s \<Longrightarrow>
   \<exists>t. media_dias_entre_avistamientos_st s r anyo =
     Some (s @ t, media_dias_entre_avistamientos (s ! r) anyo)"
proof (cases anyo)
  case None
  assume r: "r < length s"
  have "media_dias_entre_avistamientos_st s r anyo =
     Some (s @ [py_sort_key av_key False (s ! r), drop 1 (py_sort_key av_key False (s ! r))],
           media_dias_entre_avistamientos (s ! r) anyo)"
    using r by (simp add: None media_dias_entre_avistamientos_st_def new_list_def nth_append
        media_dias_entre_avistamientos_def Let_def)
  then show ?thesis by blast
next
  case (Some y)
  assume r: "r < length s"
  let ?sel = "filter (\<lambda>a. year (fechahora a) = y) (s ! r)"
  have "media_dias_entre_avistamientos_st s r anyo =
     Some (s @ [?sel, py_sort_key av_key False ?sel, drop 1 (py_sort_key av_key False ?sel)],
           media_dias_entre_avistamientos (s ! r) anyo)"
    using r by (simp add: Some media_dias_entre_avistamientos_st_def new_list_def nth_append
        for_in_append_new media_dias_entre_avistamientos_def Let_def)
  then show ?thesis by blast
qed


subsection \<open>The grouping loops write new lists only\<close>

lemma frescos_init: "frescos s0 (s0, [])"
  by (simp add: frescos_def)

lemma frescos_read: "r < length s0 \<Longrightarrow> frescos s0 st \<Longrightarrow> fst st ! r = s0 ! r"
  unfolding frescos_def by (metis nth_take)

lemma agrupa_paso_frescos: "frescos s0 st \<Longrightarrow> frescos s0 (agrupa_paso av st)"
proof -
  assume inv: "frescos s0 st"
  obtain s d where st: "st = (s, d)" by (cases st)
  from inv have len: "length s0 \<le> length s" and tk: "take (length s0) s = s0"
    and refs: "\<forall>l\<in>snd ` set d. length s0 \<le> l \<and> l < length s"
    by (simp_all add: frescos_def st)
  show ?thesis
  proof (cases "map_of d (estado av)")
    case None
    then show ?thesis
      using len tk refs
      by (auto simp: agrupa_paso_def st new_list_def list_append_def frescos_def less_Suc_eq)
  next
    case (Some l)
    then have "(estado av, l) \<in> set d" by (rule map_of_SomeD)
    then have "l \<in> snd ` set d" by force
    then have l: "length s0 \<le> l" using refs by blast
    show ?thesis
      using len tk refs l by (simp add: agrupa_paso_def st Some list_append_def frescos_def)
  qed
qed

lemma for_in_agrupa_paso:
  assumes "r < length s0"
  shows "for_in r agrupa_paso 0 (s0, []) = Some (fold agrupa_paso (s0 ! r) (s0, []))"
proof -
  have "for_in r agrupa_paso 0 (s0, []) = Some (fold agrupa_paso (drop 0 (s0 ! r)) (s0, []))"
    by (rule for_in_fold [where I = "frescos s0"])
      (simp_all add: agrupa_paso_frescos frescos_read [OF assms] frescos_init)
  then show ?thesis by simp
qed

lemma fold_agrupa_paso_frescos: "frescos s0 (fold agrupa_paso xs (s0, []))"
  by (rule fold_invariant [where I = "frescos s0"]) (simp_all add: agrupa_paso_frescos frescos_init)

lemma fold_recorta_paso_frame:
  "\<forall>item\<in>set items. length s0 \<le> snd item \<Longrightarrow>
   length s0 \<le> length (fst st) \<and> take (length s0) (fst st) = s0 \<Longrightarrow>
   length s0 \<le> length (fst (fold (recorta_paso n) items st)) \<and>
   take (length s0) (fst (fold (recorta_paso n) items st)) = s0"
proof (induction items arbitrary: st)
  case Nil
  then show ?case by simp
next
  case (Cons item items)
  have l: "length s0 \<le> snd item" using Cons.prems(1) by simp
  have "length s0 \<le> length (fst (recorta_paso n item st)) \<and>
        take (length s0) (fst (recorta_paso n item st)) = s0"
    using Cons.prems(2) l by (simp add: recorta_paso_def new_list_def list_sort_def Let_def)
  moreover have "\<forall>item\<in>set items. length s0 \<le> snd item" using Cons.prems(1) by simp
  ultimately show ?case using Cons.IH by simp
qed

lemma avistamientos_mayor_duracion_por_estado_st_unchanged:
  assumes r: "r < length s"
  shows "unchanged s r (avistamientos_mayor_duracion_por_estado_st s r n)"
proof -
  obtain s1 d where f: "fold agrupa_paso (s ! r) (s, []) = (s1, d)"
    by (cases "fold agrupa_paso (s ! r) (s, [])")
  have inv: "frescos s (s1, d)" using fold_agrupa_paso_frescos [of s "s ! r"] by (simp add: f)
  then have items: "\<forall>item\<in>set d. length s \<le> snd item"
    and base: "length s \<le> length (fst (s1, d)) \<and> take (length s) (fst (s1, d)) = s"
    by (auto simp: frescos_def)
  obtain s2 d2 where g: "fold (recorta_paso n) d (s1, d) = (s2, d2)"
    by (cases "fold (recorta_paso n) d (s1, d)")
  from fold_recorta_paso_frame [OF items base, of n]
  have "length s \<le> length s2" "take (length s) s2 = s" by (simp_all add: g)
  moreover have "avistamientos_mayor_duracion_por_estado_st s r n = Some (s2, d2)"
    by (simp add: avistamientos_mayor_duracion_por_estado_st_def for_in_agrupa_paso [OF r] f g)
  ultimately show ?thesis using unchanged_takeI [OF r] by simp
qed

lemma avistamiento_mas_reciente_por_estado_st_unchanged:
  assumes r: "r < length s"
  shows "unchanged s r (avistamiento_mas_reciente_por_estado_st s r)"
proof -
  obtain s1 d where f: "fold agrupa_paso (s ! r) (s, []) = (s1, d)"
    by (cases "fold agrupa_paso (s ! r) (s, [])")
  have inv: "frescos s (s1, d)" using fold_agrupa_paso_frescos [of s "s ! r"] by (simp add: f)
  then have "length s \<le> length s1" "take (length s) s1 = s" by (simp_all add: frescos_def)
  moreover have "\<exists>res. avistamiento_mas_reciente_por_estado_st s r = Some (s1, res)"
    by (simp add: avistamiento_mas_reciente_por_estado_st_def for_in_agrupa_paso [OF r] f)
  ultimately show ?thesis using unchanged_takeI [OF r] by auto
qed

subsection \<open>More agreement of the two models\<close>

lemma fold_if_filter: "fold (\<lambda>a c. if P a then g a c else c) xs c = fold g (filter P xs) c"
  by (induction xs arbitrary: c) auto

lemma fold_insert_filter:
  "fold (\<lambda>a c. if P a then insert a c else c) xs c = c \<union> set (filter P xs)"
  by (induction xs arbitrary: c) auto

lemma avistamiento_mayor_duracion2_st_eq:
  "avistamiento_mayor_duracion2_st s r f = Some (s, avistamiento_mayor_duracion2 (s ! r) f)"
  by (simp add: avistamiento_mayor_duracion2_st_def for_in_solo_local fold_append_filter
      avistamiento_mayor_duracion2_def)

lemma avistamientos_cercanos_ubicacion2_st_eq:
  "avistamientos_cercanos_ubicacion2_st distancia s r u radio =
     Some (s, avistamientos_cercanos_ubicacion2 distancia (s ! r) u radio)"
  by (simp add: avistamientos_cercanos_ubicacion2_st_def for_in_solo_local fold_insert_filter
      avistamientos_cercanos_ubicacion2_def)

lemma avistamientos_por_fecha_st_eq:
  "avistamientos_por_fecha_st s r = Some (s, avistamientos_por_fecha (s ! r))"
  by (simp add: avistamientos_por_fecha_st_def for_in_solo_local avistamientos_por_fecha_def)

lemma avistamientos_por_fecha2_st_eq:
  "avistamientos_por_fecha2_st s r = Some (s, avistamientos_por_fecha2 (s ! r))"
  by (simp add: avistamientos_por_fecha2_st_def for_in_solo_local avistamientos_por_fecha2_def)

lemma numero_avistamientos_por_anyo_st_eq:
  "numero_avistamientos_por_anyo_st s r = Some (s, numero_avistamientos_por_anyo (s ! r))"
  by (simp add: numero_avistamientos_por_anyo_st_def for_in_solo_local
      numero_avistamientos_por_anyo_def)

lemma numero_avistamientos_por_anyo2_st_eq:
  "numero_avistamientos_por_anyo2_st s r = Some (s, numero_avistamientos_por_anyo2 (s ! r))"
  by (simp add: numero_avistamientos_por_anyo2_st_def for_in_solo_local
      numero_avistamientos_por_anyo2_def Counter_def fold_map comp_def)

lemma numero_avistamientos_por_anyo3_st_eq:
  "numero_avistamientos_por_anyo3_st s r = Some (s, numero_avistamientos_por_anyo3 (s ! r))"
  by (simp add: numero_avistamientos_por_anyo3_st_def for_in_solo_local
      numero_avistamientos_por_anyo3_def)

lemma longitud_media_comentarios_por_estado_st_eq:
  "longitud_media_comentarios_por_estado_st s r =
     Some (s, longitud_media_comentarios_por_estado (s ! r))"
  by (simp add: longitud_media_comentarios_por_estado_st_def for_in_solo_local
      longitud_media_comentarios_por_estado_def longitudes_comentarios_por_estado_def)

lemma porc_avistamientos_por_forma_st_eq:
  "porc_avistamientos_por_forma_st s r = Some (s, porc_avistamientos_por_forma (s ! r))"
  by (simp add: porc_avistamientos_por_forma_st_def for_in_solo_local
      porc_avistamientos_por_forma_def Counter_def fold_map comp_def)

lemma porc_avistamientos_por_forma_bis_st_eq:
  "porc_avistamientos_por_forma_bis_st s r anyo =
     Some (s, porc_avistamientos_por_forma_bis (s ! r) anyo)"
  by (simp add: porc_avistamientos_por_forma_bis_st_def for_in_solo_local fold_if_filter
      porc_avistamientos_por_forma_bis_def Counter_def fold_map comp_def Let_def)


subsection \<open>The lists of the groups hold the groups\<close>

lemma defaultdict_modify_fresh:
  "k \<notin> fst ` set d \<Longrightarrow> defaultdict_modify dflt k f d = d @ [(k, f dflt)]"
  by (induction d) auto

lemma map_of_None_fresh: "map_of d k = None \<Longrightarrow> k \<notin> fst ` set d"
  by (simp add: map_of_eq_None_iff)

lemma contents_update_present:
  "map_of d e = Some l \<Longrightarrow> distinct (map snd d) \<Longrightarrow> \<forall>l'\<in>snd ` set d. l' < length s \<Longrightarrow>
   map (\<lambda>(e', l'). (e', s[l := f (s ! l)] ! l')) d =
     defaultdict_modify dflt e f (map (\<lambda>(e', l'). (e', s ! l')) d)"
proof (induction d)
  case Nil
  then show ?case by simp
next
  case (Cons p d)
  obtain e1 l1 where p: "p = (e1, l1)" by (cases p)
  show ?case
  proof (cases "e1 = e")
    case True
    then have l1: "l1 = l" using Cons.prems(1) by (simp add: p)
    have "l < length s" using Cons.prems(3) by (simp add: p l1)
    moreover have "\<forall>q\<in>set d. snd q \<noteq> l" using Cons.prems(2) by (auto simp: p l1)
    then have "map (\<lambda>(e', l'). (e', s[l := f (s ! l)] ! l')) d = map (\<lambda>(e', l'). (e', s ! l')) d"
      by (auto simp: case_prod_unfold)
    ultimately show ?thesis by (simp add: p True l1)
  next
    case False
    then have m: "map_of d e = Some l" using Cons.prems(1) by (simp add: p)
    then have "(e, l) \<in> set d" by (rule map_of_SomeD)
    then have "l \<in> snd ` set d" by force
    then have "l1 \<noteq> l" using Cons.prems(2) by (auto simp: p)
    moreover have "map (\<lambda>(e', l'). (e', s[l := f (s ! l)] ! l')) d =
        defaultdict_modify dflt e f (map (\<lambda>(e', l'). (e', s ! l')) d)"
      using Cons.IH [OF m] Cons.prems(2,3) by simp
    ultimately show ?thesis using False by (simp add: p)
  qed
qed

lemma agrupa_paso_contents:
  assumes "distinct (map snd d)" "\<forall>l\<in>snd ` set d. l < length s"
    and "agrupa_paso av (s, d) = (s', d')"
  shows "map (\<lambda>(e, l). (e, s' ! l)) d' =
           defaultdict_modify [] (estado av) (\<lambda>l. l @ [av]) (map (\<lambda>(e, l). (e, s ! l)) d) \<and>
         distinct (map snd d') \<and> (\<forall>l\<in>snd ` set d'. l < length s')"
proof (cases "map_of d (estado av)")
  case None
  then have fresh: "estado av \<notin> fst ` set (map (\<lambda>(e, l). (e, s ! l)) d)"
    by (force dest: map_of_None_fresh)
  from assms(3) have s': "s' = s @ [[av]]" and d': "d' = d @ [(estado av, length s)]"
    by (simp_all add: agrupa_paso_def None new_list_def list_append_def)
  have old: "map (\<lambda>(e, l). (e, (s @ [[av]]) ! l)) d = map (\<lambda>(e, l). (e, s ! l)) d"
    using assms(2) by (auto simp: nth_append case_prod_unfold)
  have "length s \<notin> snd ` set d" using assms(2) by auto
  then show ?thesis
    using assms(1,2) by (auto simp: s' d' old defaultdict_modify_fresh [OF fresh] less_Suc_eq)
next
  case (Some l)
  from assms(3) have s': "s' = s[l := s ! l @ [av]]" and d': "d' = d"
    by (simp_all add: agrupa_paso_def Some list_append_def)
  show ?thesis
    using contents_update_present [OF Some assms(1,2), of "\<lambda>l. l @ [av]" "[]"] assms(1,2)
    by (simp add: s' d')
qed

lemma fold_agrupa_paso_contents:
  assumes "distinct (map snd d)" "\<forall>l\<in>snd ` set d. l < length s"
    and "fold agrupa_paso xs (s, d) = (s', d')"
  shows "map (\<lambda>(e, l). (e, s' ! l)) d' =
           fold (\<lambda>av d. defaultdict_modify [] (estado av) (\<lambda>l. l @ [av]) d) xs
             (map (\<lambda>(e, l). (e, s ! l)) d) \<and>
         distinct (map snd d') \<and> (\<forall>l\<in>snd ` set d'. l < length s')"
  using assms
proof (induction xs arbitrary: s d)
  case Nil
  then show ?case by simp
next
  case (Cons av xs)
  obtain s1 d1 where st: "agrupa_paso av (s, d) = (s1, d1)" by (cases "agrupa_paso av (s, d)")
  from agrupa_paso_contents [OF Cons.prems(1,2) st]
  have c: "map (\<lambda>(e, l). (e, s1 ! l)) d1 =
           defaultdict_modify [] (estado av) (\<lambda>l. l @ [av]) (map (\<lambda>(e, l). (e, s ! l)) d)"
    and d: "distinct (map snd d1)" and b: "\<forall>l\<in>snd ` set d1. l < length s1" by blast+
  have f: "fold agrupa_paso xs (s1, d1) = (s', d')" using Cons.prems(3) by (simp add: st)
  from Cons.IH [OF d b f] show ?case by (simp add: c)
qed

lemma agrupa_store_contents:
  assumes "fold agrupa_paso xs (s, []) = (s1, d)"
  shows "map (\<lambda>(e, l). (e, s1 ! l)) d = agrupa_por_estado xs \<and>
         distinct (map snd d) \<and> (\<forall>l\<in>snd ` set d. l < length s1)"
  using fold_agrupa_paso_contents [of "[]" s xs s1 d] assms
  by (simp add: agrupa_por_estado_def)


lemma fold_recorta_paso_contents:
  assumes "distinct (map fst (xs @ ys))" "distinct (map snd ys)"
    and "\<forall>l\<in>snd ` set ys. l < length s1" "length s1 \<le> length s"
    and "\<forall>l\<in>snd ` set ys. s ! l = s1 ! l"
    and "map fst dx = map fst xs"
    and "\<forall>l\<in>snd ` set dx. length s1 \<le> l \<and> l < length s"
    and "map (\<lambda>(e, l). (e, s ! l)) dx =
         map (\<lambda>(e, l). (e, py_slice_to n (py_sort_key duracion True (s1 ! l)))) xs"
    and "fold (recorta_paso n) ys (s, dx @ ys) = (s', d')"
  shows "map (\<lambda>(e, l). (e, s' ! l)) d' =
         map (\<lambda>(e, l). (e, py_slice_to n (py_sort_key duracion True (s1 ! l)))) (xs @ ys)"
  using assms
proof (induction ys arbitrary: xs dx s)
  case Nil
  then show ?case by simp
next
  case (Cons p ys)
  obtain e l where p: "p = (e, l)" by (cases p)
  let ?g = "\<lambda>l. py_slice_to n (py_sort_key duracion True l)"
  let ?sa = "s[l := py_sort_key duracion True (s ! l)]"
  let ?sb = "?sa @ [py_slice_to n (?sa ! l)]"
  have l1: "l < length s1" using Cons.prems(3) by (simp add: p)
  have ls: "l < length s" using l1 Cons.prems(4) by simp
  have sl: "s ! l = s1 ! l" using Cons.prems(5) by (simp add: p)
  have efresh: "e \<notin> fst ` set dx"
  proof -
    have "e \<notin> set (map fst xs)" using Cons.prems(1) by (auto simp: p)
    then show ?thesis using Cons.prems(6) by (metis set_map)
  qed
  have step: "recorta_paso n p (s, dx @ p # ys) = (?sb, (dx @ [(e, length s)]) @ ys)"
    using dict_set_middle [OF efresh, of "length s" l ys]
    by (simp add: recorta_paso_def p new_list_def list_sort_def Let_def)
  have 1: "distinct (map fst ((xs @ [(e, l)]) @ ys))" using Cons.prems(1) by (simp add: p)
  have 2: "distinct (map snd ys)" using Cons.prems(2) by simp
  have 3: "\<forall>l\<in>snd ` set ys. l < length s1" using Cons.prems(3) by simp
  have 4: "length s1 \<le> length ?sb" using Cons.prems(4) by simp
  have 5: "\<forall>l'\<in>snd ` set ys. ?sb ! l' = s1 ! l'"
  proof
    fix l' assume m: "l' \<in> snd ` set ys"
    then have "l' < length s1" using 3 by blast
    then have "l' < length s" using Cons.prems(4) by simp
    moreover have "l' \<noteq> l" using Cons.prems(2) m by (auto simp: p)
    moreover have "s ! l' = s1 ! l'" using Cons.prems(5) m by auto
    ultimately show "?sb ! l' = s1 ! l'" by (simp add: nth_append)
  qed
  have 6: "map fst (dx @ [(e, length s)]) = map fst (xs @ [(e, l)])"
    using Cons.prems(6) by simp
  have 7: "\<forall>l'\<in>snd ` set (dx @ [(e, length s)]). length s1 \<le> l' \<and> l' < length ?sb"
    using Cons.prems(4,7) by (auto simp: less_Suc_eq)
  have old: "map (\<lambda>(e, l'). (e, ?sb ! l')) dx = map (\<lambda>(e, l'). (e, s ! l')) dx"
  proof -
    have "?sb ! l' = s ! l'" if "l' \<in> snd ` set dx" for l'
    proof -
      from that Cons.prems(7) have "length s1 \<le> l'" "l' < length s" by blast+
      then show ?thesis using l1 by (simp add: nth_append)
    qed
    then show ?thesis by (auto simp: case_prod_unfold)
  qed
  have new: "?sb ! length s = ?g (s1 ! l)" using ls by (simp add: nth_append sl)
  have 8: "map (\<lambda>(e, l). (e, ?sb ! l)) (dx @ [(e, length s)]) =
      map (\<lambda>(e, l). (e, ?g (s1 ! l))) (xs @ [(e, l)])"
    using Cons.prems(8) by (simp add: old new)
  have 9: "fold (recorta_paso n) ys (?sb, (dx @ [(e, length s)]) @ ys) = (s', d')"
    using Cons.prems(9) by (simp add: step)
  from Cons.IH [OF 1 2 3 4 5 6 7 8 9] show ?case by (simp add: p)
qed

lemma avistamientos_mayor_duracion_por_estado_st_eq:
  assumes r: "r < length s"
  shows "\<exists>s' d'. avistamientos_mayor_duracion_por_estado_st s r n = Some (s', d') \<and>
           map (\<lambda>(e, l). (e, s' ! l)) d' = avistamientos_mayor_duracion_por_estado (s ! r) n"
proof -
  obtain s1 d where f: "fold agrupa_paso (s ! r) (s, []) = (s1, d)"
    by (cases "fold agrupa_paso (s ! r) (s, [])")
  from agrupa_store_contents [OF f]
  have c: "map (\<lambda>(e, l). (e, s1 ! l)) d = agrupa_por_estado (s ! r)"
    and dr: "distinct (map snd d)" and b: "\<forall>l\<in>snd ` set d. l < length s1" by blast+
  have "map fst d = map fst (map (\<lambda>(e, l). (e, s1 ! l)) d)"
    by (simp add: case_prod_unfold comp_def)
  then have dk: "distinct (map fst ([] @ d))"
    using agrupa_por_estado_distinct [of "s ! r"] by (simp add: c)
  obtain s2 d2 where g: "fold (recorta_paso n) d (s1, [] @ d) = (s2, d2)"
    by (cases "fold (recorta_paso n) d (s1, [] @ d)")
  have "map (\<lambda>(e, l). (e, s2 ! l)) d2 =
      map (\<lambda>(e, l). (e, py_slice_to n (py_sort_key duracion True (s1 ! l)))) ([] @ d)"
    by (rule fold_recorta_paso_contents [OF dk dr b _ _ _ _ _ g]) simp_all
  also have "\<dots> = map (\<lambda>(e, l). (e, py_slice_to n (py_sort_key duracion True l)))
      (map (\<lambda>(e, l). (e, s1 ! l)) d)"
    by (simp add: case_prod_unfold comp_def)
  also have "\<dots> = avistamientos_mayor_duracion_por_estado (s ! r) n"
    by (simp add: c mayor_duracion_por_estado_eq)
  finally have res: "map (\<lambda>(e, l). (e, s2 ! l)) d2 =
      avistamientos_mayor_duracion_por_estado (s ! r) n" .
  have "avistamientos_mayor_duracion_por_estado_st s r n = Some (s2, d2)"
    using g by (simp add: avistamientos_mayor_duracion_por_estado_st_def for_in_agrupa_paso [OF r] f)
  then show ?thesis using res by blast
qed

lemma dict_set_map_values:
  "map (\<lambda>(e, v). (e, h v)) (dict_set k v d) = dict_set k (h v) (map (\<lambda>(e, v). (e, h v)) d)"
  by (induction d) auto

lemma reciente_loop_st_contents:
  "map_sum id (map (\<lambda>(e, v). (e, case v of Inl l \<Rightarrow> Grupo (s ! l) | Inr t \<Rightarrow> Fecha t)))
     (reciente_loop_st s items dd) =
   reciente_loop (map (\<lambda>(e, l). (e, s ! l)) items)
     (map (\<lambda>(e, v). (e, case v of Inl l \<Rightarrow> Grupo (s ! l) | Inr t \<Rightarrow> Fecha t)) dd)"
proof (induction items arbitrary: dd)
  case Nil
  then show ?case by simp
next
  case (Cons p items)
  obtain e l where p: "p = (e, l)" by (cases p)
  show ?case
  proof (cases "py_max_key (\<lambda>a. dt_key (fechahora a)) (s ! l)")
    case (Inl err)
    then show ?thesis by (simp add: p)
  next
    case (Inr a)
    then show ?thesis
      using Cons.IH [of "dict_set e (Inr (fechahora a)) dd"]
      by (simp add: p dict_set_map_values)
  qed
qed

lemma avistamiento_mas_reciente_por_estado_st_eq:
  assumes r: "r < length s"
  shows "\<exists>s' res. avistamiento_mas_reciente_por_estado_st s r = Some (s', res) \<and>
           map_sum id (map (\<lambda>(e, v). (e, case v of Inl l \<Rightarrow> Grupo (s' ! l) | Inr t \<Rightarrow> Fecha t))) res =
             avistamiento_mas_reciente_por_estado (s ! r)"
proof -
  obtain s1 d where f: "fold agrupa_paso (s ! r) (s, []) = (s1, d)"
    by (cases "fold agrupa_paso (s ! r) (s, [])")
  from agrupa_store_contents [OF f]
  have c: "map (\<lambda>(e, l). (e, s1 ! l)) d = agrupa_por_estado (s ! r)" by blast
  have st: "avistamiento_mas_reciente_por_estado_st s r =
      Some (s1, reciente_loop_st s1 d (map (\<lambda>(e, l). (e, Inl l)) d))"
    by (simp add: avistamiento_mas_reciente_por_estado_st_def for_in_agrupa_paso [OF r] f)
  have ini: "map (\<lambda>(e, v). (e, case v of Inl l \<Rightarrow> Grupo (s1 ! l) | Inr t \<Rightarrow> Fecha t))
        (map (\<lambda>(e, l). (e, Inl l)) d) =
      map (\<lambda>(e, l). (e, Grupo l)) (map (\<lambda>(e, l). (e, s1 ! l)) d)"
    by (simp add: case_prod_unfold comp_def)
  have "map_sum id (map (\<lambda>(e, v). (e, case v of Inl l \<Rightarrow> Grupo (s1 ! l) | Inr t \<Rightarrow> Fecha t)))
      (reciente_loop_st s1 d (map (\<lambda>(e, l). (e, Inl l)) d)) =
      avistamiento_mas_reciente_por_estado (s ! r)"
    unfolding reciente_loop_st_contents ini c
    by (simp add: avistamiento_mas_reciente_por_estado_def Let_def)
  then show ?thesis using st by blast
qed

text \<open>
  Claim C9. Every operation of the module, called on a store \<open>s\<close> with the address of
  an existing list as \<open>avistamientos\<close>, returns, and the list at that address (as every
  list that existed at the call) has afterwards the elements it had, in the same order:
  the operations that append or sort (\<open>avistamiento_mayor_duracion\<close>,
  \<open>avistamientos_fechas\<close>, \<open>comentario_mas_largo\<close>, \<open>media_dias_entre_avistamientos\<close>,
  \<open>avistamientos_mayor_duracion_por_estado\<close>, \<open>avistamiento_mas_reciente_por_estado\<close>) do
  so on lists they have allocated, and the others write local values only.
\<close>

theorem input_sequence_unchanged:
  "avistamientos < length s \<Longrightarrow>
   unchanged s avistamientos (numero_avistamientos_fecha s avistamientos fecha) \<and>
   unchanged s avistamientos (numero_avistamientos_fecha2 s avistamientos fecha) \<and>
   unchanged s avistamientos (formas_estados s avistamientos estados) \<and>
   unchanged s avistamientos (formas_estados2 s avistamientos estados) \<and>
   unchanged s avistamientos (duracion_total s avistamientos e) \<and>
   unchanged s avistamientos (duracion_total2 s avistamientos e) \<and>
   unchanged s avistamientos (avistamientos_cercanos_ubicacion_st distancia s avistamientos u radio) \<and>
   unchanged s avistamientos (avistamientos_cercanos_ubicacion2_st distancia s avistamientos u radio) \<and>
   unchanged s avistamientos (avistamiento_mayor_duracion_st s avistamientos f) \<and>
   unchanged s avistamientos (avistamiento_mayor_duracion2_st s avistamientos f) \<and>
   unchanged s avistamientos (avistamiento_cercano_mayor_duracion_st distancia s avistamientos u radio) \<and>
   unchanged s avistamientos (avistamientos_fechas_st s avistamientos fecha_inicial fecha_final) \<and>
   unchanged s avistamientos (comentario_mas_largo_st lower s avistamientos anyo palabra) \<and>
   unchanged s avistamientos (media_dias_entre_avistamientos_st s avistamientos anyo_opt) \<and>
   unchanged s avistamientos (avistamientos_por_fecha_st s avistamientos) \<and>
   unchanged s avistamientos (avistamientos_por_fecha2_st s avistamientos) \<and>
   unchanged s avistamientos (formas_por_mes s avistamientos) \<and>
   unchanged s avistamientos (formas_por_mes2 s avistamientos) \<and>
   unchanged s avistamientos (numero_avistamientos_por_anyo_st s avistamientos) \<and>
   unchanged s avistamientos (numero_avistamientos_por_anyo2_st s avistamientos) \<and>
   unchanged s avistamientos (numero_avistamientos_por_anyo3_st s avistamientos) \<and>
   unchanged s avistamientos (num_avistamientos_por_mes s avistamientos) \<and>
   unchanged s avistamientos (estado_mas_avistamientos s avistamientos) \<and>
   unchanged s avistamientos (hora_mas_avistamientos s avistamientos) \<and>
   unchanged s avistamientos (longitud_media_comentarios_por_estado_st s avistamientos) \<and>
   unchanged s avistamientos (porc_avistamientos_por_forma_st s avistamientos) \<and>
   unchanged s avistamientos (porc_avistamientos_por_forma_bis_st s avistamientos anyo) \<and>
   unchanged s avistamientos (avistamientos_mayor_duracion_por_estado_st s avistamientos n) \<and>
   unchanged s avistamientos (anyo_mas_avistamientos_forma s avistamientos f) \<and>
   unchanged s avistamientos (estados_mas_avistamientos s avistamientos n) \<and>
   unchanged s avistamientos (duracion_total_avistamientos_anyo s avistamientos e) \<and>
   unchanged s avistamientos (avistamiento_mas_reciente_por_estado_st s avistamientos)"
proof -
  assume r: "avistamientos < length s"
  have c1: "unchanged s avistamientos (numero_avistamientos_fecha s avistamientos fecha)"
    by (simp add: numero_avistamientos_fecha_def for_in_solo_local unchanged_def)
  have c2: "unchanged s avistamientos (numero_avistamientos_fecha2 s avistamientos fecha)"
    by (simp add: numero_avistamientos_fecha2_def for_in_solo_local unchanged_def)
  have c3: "unchanged s avistamientos (formas_estados s avistamientos estados)"
    by (simp add: formas_estados_def for_in_solo_local unchanged_def)
  have c4: "unchanged s avistamientos (formas_estados2 s avistamientos estados)"
    by (simp add: formas_estados2_def for_in_solo_local unchanged_def)
  have c5: "unchanged s avistamientos (duracion_total s avistamientos e)"
    by (simp add: duracion_total_def for_in_solo_local unchanged_def)
  have c6: "unchanged s avistamientos (duracion_total2 s avistamientos e)"
    by (simp add: duracion_total2_def for_in_solo_local unchanged_def)
  have c7: "unchanged s avistamientos (avistamientos_cercanos_ubicacion_st distancia s avistamientos u radio)"
    by (simp add: avistamientos_cercanos_ubicacion_st_def for_in_solo_local unchanged_def)
  have c8: "unchanged s avistamientos (avistamientos_cercanos_ubicacion2_st distancia s avistamientos u radio)"
    by (simp add: avistamientos_cercanos_ubicacion2_st_def for_in_solo_local unchanged_def)
  have c9: "unchanged s avistamientos (avistamiento_mayor_duracion_st s avistamientos f)"
    using r by (simp add: avistamiento_mayor_duracion_st_eq unchanged_def nth_append)
  have c10: "unchanged s avistamientos (avistamiento_mayor_duracion2_st s avistamientos f)"
    by (simp add: avistamiento_mayor_duracion2_st_def for_in_solo_local unchanged_def)
  have c11: "unchanged s avistamientos (avistamiento_cercano_mayor_duracion_st distancia s avistamientos u radio)"
    by (simp add: avistamiento_cercano_mayor_duracion_st_eq unchanged_def)
  have c12: "unchanged s avistamientos (avistamientos_fechas_st s avistamientos fecha_inicial fecha_final)"
    using r by (simp add: avistamientos_fechas_st_eq unchanged_def nth_append)
  have c13: "unchanged s avistamientos (comentario_mas_largo_st lower s avistamientos anyo palabra)"
    using r by (simp add: comentario_mas_largo_st_eq unchanged_def nth_append)
  have c14: "unchanged s avistamientos (media_dias_entre_avistamientos_st s avistamientos anyo_opt)"
    using media_dias_entre_avistamientos_st_eq [OF r, of anyo_opt] r
    by (auto simp: unchanged_def nth_append)
  have c15: "unchanged s avistamientos (avistamientos_por_fecha_st s avistamientos)"
    by (simp add: avistamientos_por_fecha_st_def for_in_solo_local unchanged_def)
  have c16: "unchanged s avistamientos (avistamientos_por_fecha2_st s avistamientos)"
    by (simp add: avistamientos_por_fecha2_st_def for_in_solo_local unchanged_def)
  have c17: "unchanged s avistamientos (formas_por_mes s avistamientos)"
    by (simp add: formas_por_mes_def for_in_solo_local unchanged_def)
  have c18: "unchanged s avistamientos (formas_por_mes2 s avistamientos)"
    by (simp add: formas_por_mes2_def for_in_solo_local unchanged_def)
  have c19: "unchanged s avistamientos (numero_avistamientos_por_anyo_st s avistamientos)"
    by (simp add: numero_avistamientos_por_anyo_st_def for_in_solo_local unchanged_def)
  have c20: "unchanged s avistamientos (numero_avistamientos_por_anyo2_st s avistamientos)"
    by (simp add: numero_avistamientos_por_anyo2_st_def for_in_solo_local unchanged_def)
  have c21: "unchanged s avistamientos (numero_avistamientos_por_anyo3_st s avistamientos)"
    by (simp add: numero_avistamientos_por_anyo3_st_def for_in_solo_local unchanged_def)
  have c22: "unchanged s avistamientos (num_avistamientos_por_mes s avistamientos)"
    by (simp add: num_avistamientos_por_mes_def for_in_solo_local unchanged_def)
  have c23: "unchanged s avistamientos (estado_mas_avistamientos s avistamientos)"
    by (simp add: estado_mas_avistamientos_def for_in_solo_local unchanged_def)
  have c24: "unchanged s avistamientos (hora_mas_avistamientos s avistamientos)"
    by (simp add: hora_mas_avistamientos_def for_in_solo_local unchanged_def)
  have c25: "unchanged s avistamientos (longitud_media_comentarios_por_estado_st s avistamientos)"
    by (simp add: longitud_media_comentarios_por_estado_st_def for_in_solo_local unchanged_def)
  have c26: "unchanged s avistamientos (porc_avistamientos_por_forma_st s avistamientos)"
    by (simp add: porc_avistamientos_por_forma_st_def for_in_solo_local unchanged_def)
  have c27: "unchanged s avistamientos (porc_avistamientos_por_forma_bis_st s avistamientos anyo)"
    by (simp add: porc_avistamientos_por_forma_bis_st_def for_in_solo_local unchanged_def)
  have c28: "unchanged s avistamientos (avistamientos_mayor_duracion_por_estado_st s avistamientos n)"
    by (rule avistamientos_mayor_duracion_por_estado_st_unchanged [OF r])
  have c29: "unchanged s avistamientos (anyo_mas_avistamientos_forma s avistamientos f)"
    by (simp add: anyo_mas_avistamientos_forma_def for_in_solo_local unchanged_def)
  have c30: "unchanged s avistamientos (estados_mas_avistamientos s avistamientos n)"
    by (simp add: estados_mas_avistamientos_def for_in_solo_local unchanged_def)
  have c31: "unchanged s avistamientos (duracion_total_avistamientos_anyo s avistamientos e)"
    by (simp add: duracion_total_avistamientos_anyo_def for_in_solo_local unchanged_def)
  have c32: "unchanged s avistamientos (avistamiento_mas_reciente_por_estado_st s avistamientos)"
    by (rule avistamiento_mas_reciente_por_estado_st_unchanged [OF r])
  show ?thesis
    by (intro conjI) (fact c1 c2 c3 c4 c5 c6 c7 c8 c9 c10 c11 c12 c13 c14 c15 c16 c17 c18 c19 c20 c21 c22 c23 c24 c25 c26 c27 c28 c29 c30 c31 c32)+
qed

text \<open>
  A store with one list of two records: \<open>avistamientos_fechas\<close> leaves it in place and
  returns the address 1 of a new list, the two records most recent first.
\<close>

theorem input_sequence_unchanged_witness:
  "(0::nat) < length [[ej_avistamiento (ej_fechahora 2020 1 1 0 0) [1] [] 5 [] 0,
                       ej_avistamiento (ej_fechahora 2020 1 2 0 0) [1] [] 7 [] 0]] \<and>
   avistamientos_fechas_st
     [[ej_avistamiento (ej_fechahora 2020 1 1 0 0) [1] [] 5 [] 0,
       ej_avistamiento (ej_fechahora 2020 1 2 0 0) [1] [] 7 [] 0]] 0 None None =
     Some ([[ej_avistamiento (ej_fechahora 2020 1 1 0 0) [1] [] 5 [] 0,
             ej_avistamiento (ej_fechahora 2020 1 2 0 0) [1] [] 7 [] 0],
            [ej_avistamiento (ej_fechahora 2020 1 2 0 0) [1] [] 7 [] 0,
             ej_avistamiento (ej_fechahora 2020 1 1 0 0) [1] [] 5 [] 0]], 1) \<and>
   unchanged
     [[ej_avistamiento (ej_fechahora 2020 1 1 0 0) [1] [] 5 [] 0,
       ej_avistamiento (ej_fechahora 2020 1 2 0 0) [1] [] 7 [] 0]] 0
     (avistamientos_mayor_duracion_por_estado_st
        [[ej_avistamiento (ej_fechahora 2020 1 1 0 0) [1] [] 5 [] 0,
          ej_avistamiento (ej_fechahora 2020 1 2 0 0) [1] [] 7 [] 0]] 0 n_por_defecto)"
proof -
  let ?s = "[[ej_avistamiento (ej_fechahora 2020 1 1 0 0) [1] [] 5 [] 0,
              ej_avistamiento (ej_fechahora 2020 1 2 0 0) [1] [] 7 [] 0]]"
  have r: "(0::nat) < length ?s" by simp
  have ev: "avistamientos_fechas_st ?s 0 None None =
     Some ([[ej_avistamiento (ej_fechahora 2020 1 1 0 0) [1] [] 5 [] 0,
             ej_avistamiento (ej_fechahora 2020 1 2 0 0) [1] [] 7 [] 0],
            [ej_avistamiento (ej_fechahora 2020 1 2 0 0) [1] [] 7 [] 0,
             ej_avistamiento (ej_fechahora 2020 1 1 0 0) [1] [] 5 [] 0]], 1)"
    by (simp add: avistamientos_fechas_st_eq avistamientos_fechas_def en_rango_def py_sort_key_def
        dt_key_def ej_avistamiento_def ej_fechahora_def less_eq_prod_def)
  have u: "unchanged ?s 0 (avistamientos_mayor_duracion_por_estado_st ?s 0 n_por_defecto)"
    by (rule input_sequence_unchanged [OF r, THEN conjunct2, THEN conjunct2, THEN conjunct2, THEN conjunct2, THEN conjunct2, THEN conjunct2, THEN conjunct2, THEN conjunct2, THEN conjunct2, THEN conjunct2, THEN conjunct2, THEN conjunct2, THEN conjunct2, THEN conjunct2, THEN conjunct2, THEN conjunct2, THEN conjunct2, THEN conjunct2, THEN conjunct2, THEN conjunct2, THEN conjunct2, THEN conjunct2, THEN conjunct2, THEN conjunct2, THEN conjunct2, THEN conjunct2, THEN conjunct2, THEN conjunct1])
  show ?thesis using r ev u by blast
qed

end
